theory Spec2Isabelle
  imports Main "HOL-Library.Word" "HOL-Library.Sublist"
begin

section \<open>JavaScript values used by the conversion service\<close>

text \<open>
  A JavaScript string is a sequence of UTF-16 code units: \<open>s.length\<close> counts code units
  and a regular expression without the \<open>u\<close> flag works on single code units. A
  \<open>Buffer\<close> is a sequence of bytes. A property that may be \<open>undefined\<close> or \<open>null\<close>
  is an \<open>option\<close>.
\<close>

type_synonym byte = "8 word"
type_synonym jschar = "16 word"
type_synonym jsstring = "jschar list"

definition js :: "string \<Rightarrow> jsstring" where
  "js s = map of_char s"

subsection \<open>\<open>parseInt\<close> and the \<open>||\<close> default\<close>

text \<open>
  \<open>parseInt(x)\<close> with no radix: \<open>ToString(x)\<close>, leading white space dropped, an optional
  sign, an optional \<open>0x\<close>/\<open>0X\<close> prefix selecting radix 16, then the longest prefix of
  digits of the radix. No digit gives \<open>NaN\<close>, here \<open>None\<close>. The result is kept as an
  unbounded integer; the run-time rounds integers beyond \<open>2^53\<close> to a double, which the
  clamp to \<open>[6, 72]\<close> applied afterwards does not observe.
\<close>

definition isWhiteSpace :: "jschar \<Rightarrow> bool" where
  "isWhiteSpace c \<longleftrightarrow>
     c \<in> {0x09, 0x0A, 0x0B, 0x0C, 0x0D, 0x20, 0xA0, 0x1680, 0x2028, 0x2029,
          0x202F, 0x205F, 0x3000, 0xFEFF}
     \<or> (0x2000 \<le> c \<and> c \<le> 0x200A)"

definition digitValue :: "jschar \<Rightarrow> nat option" where
  "digitValue c =
     (if 0x30 \<le> c \<and> c \<le> 0x39 then Some (unat c - 0x30)
      else if 0x61 \<le> c \<and> c \<le> 0x7A then Some (unat c - 0x61 + 10)
      else if 0x41 \<le> c \<and> c \<le> 0x5A then Some (unat c - 0x41 + 10)
      else None)"

fun radixDigits :: "nat \<Rightarrow> jsstring \<Rightarrow> nat list" where
  "radixDigits r [] = []"
| "radixDigits r (c # cs) =
     (case digitValue c of
        None \<Rightarrow> []
      | Some d \<Rightarrow> if d < r then d # radixDigits r cs else [])"

definition radixValue :: "nat \<Rightarrow> nat list \<Rightarrow> nat" where
  "radixValue r ds = foldl (\<lambda>acc d. acc * r + d) 0 ds"

fun stripSign :: "jsstring \<Rightarrow> int \<times> jsstring" where
  "stripSign [] = (1, [])"
| "stripSign (c # cs) =
     (if c = 0x2D then (- 1, cs) else if c = 0x2B then (1, cs) else (1, c # cs))"

fun stripHexPrefix :: "jsstring \<Rightarrow> nat \<times> jsstring" where
  "stripHexPrefix (c # d # cs) =
     (if c = 0x30 \<and> (d = 0x78 \<or> d = 0x58) then (16, cs) else (10, c # d # cs))"
| "stripHexPrefix cs = (10, cs)"

definition parseInt :: "jsstring option \<Rightarrow> int option" where
  "parseInt input =
     (let inputString = (case input of None \<Rightarrow> js ''undefined'' | Some s \<Rightarrow> s);
          (sign, s1) = stripSign (dropWhile isWhiteSpace inputString);
          (r, s2) = stripHexPrefix s1;
          z = radixDigits r s2
      in if z = [] then None else Some (sign * int (radixValue r z)))"

text \<open>\<open>n || d\<close> on a number: \<open>NaN\<close> and \<open>0\<close> are falsy.\<close>

definition numberOr :: "int option \<Rightarrow> int \<Rightarrow> int" where
  "numberOr n d = (case n of None \<Rightarrow> d | Some v \<Rightarrow> if v = 0 then d else v)"

text \<open>\<open>s || d\<close> on a request field: \<open>undefined\<close> and the empty string are falsy.\<close>

definition stringOr :: "jsstring option \<Rightarrow> jsstring \<Rightarrow> jsstring" where
  "stringOr s d = (case s of None \<Rightarrow> d | Some v \<Rightarrow> if v = [] then d else v)"

subsection \<open>Thrown errors\<close>

text \<open>A thrown error: its \<open>name\<close> and its \<open>code\<close>, which the \<open>catch\<close> block inspects.\<close>

record jsError =
  errName :: jsstring
  errCode :: "jsstring option"

text \<open>What calling a method on \<open>null\<close> throws.\<close>

definition typeError :: jsError where
  "typeError = \<lparr> errName = js ''TypeError'', errCode = None \<rparr>"

section \<open>Configuration\<close>

text \<open>The fields of \<open>config\<close> that the \<open>/convert\<close> handler reads (index.js, lines 17 to 31).\<close>

record config =
  defaultFontSize :: int
  memoryLimitMB :: int

definition loadConfig :: "(string \<Rightarrow> jsstring option) \<Rightarrow> config" where
  "loadConfig env =
     \<lparr> defaultFontSize = numberOr (parseInt (env ''DEFAULT_FONT_SIZE'')) 9,
       memoryLimitMB = numberOr (parseInt (env ''MEMORY_LIMIT_MB'')) 512 \<rparr>"

section \<open>Input validation and filename sanitisation\<close>

definition XLSX_MAGIC :: "byte list" where
  "XLSX_MAGIC = [0x50, 0x4B, 0x03, 0x04]"

text \<open>
  \<open>isValidXlsx(buffer)\<close>: \<open>!buffer\<close> holds for \<open>null\<close> and \<open>undefined\<close> only (a
  \<open>Buffer\<close> object is truthy even when empty); \<open>subarray(0, 4)\<close> is read only when the
  buffer has at least four bytes.
\<close>

definition isValidXlsx :: "byte list option \<Rightarrow> bool" where
  "isValidXlsx buffer =
     (case buffer of
        None \<Rightarrow> False
      | Some b \<Rightarrow> if length b < 4 then False else take 4 b = XLSX_MAGIC)"

text \<open>The character class \<open>[a-zA-Z0-9._-]\<close>.\<close>

definition safeChar :: "jschar \<Rightarrow> bool" where
  "safeChar c \<longleftrightarrow>
     (0x61 \<le> c \<and> c \<le> 0x7A) \<or> (0x41 \<le> c \<and> c \<le> 0x5A) \<or> (0x30 \<le> c \<and> c \<le> 0x39)
     \<or> c = 0x2E \<or> c = 0x5F \<or> c = 0x2D"

definition sanitizeFilename :: "jsstring \<Rightarrow> jsstring" where
  "sanitizeFilename name = map (\<lambda>c. if safeChar c then c else 0x5F) name"

text \<open>
  \<open>/\.xlsx$/i\<close>: the last five code units are a dot and the letters x, l, s, x in either
  case. Without the \<open>u\<close> flag no code unit beyond ASCII is case-folded onto an ASCII
  letter, so these are the only matches.
\<close>

fun isDotXlsx :: "jsstring \<Rightarrow> bool" where
  "isDotXlsx [d, x1, l, s, x2] \<longleftrightarrow>
     d = 0x2E \<and> (x1 = 0x78 \<or> x1 = 0x58) \<and> (l = 0x6C \<or> l = 0x4C)
     \<and> (s = 0x73 \<or> s = 0x53) \<and> (x2 = 0x78 \<or> x2 = 0x58)"
| "isDotXlsx _ \<longleftrightarrow> False"

text \<open>\<open>name.replace(/\.xlsx$/i, ".pdf")\<close>\<close>

definition replaceXlsxExt :: "jsstring \<Rightarrow> jsstring" where
  "replaceXlsxExt name =
     (if 5 \<le> length name \<and> isDotXlsx (drop (length name - 5) name)
      then take (length name - 5) name @ js ''.pdf''
      else name)"

text \<open>
  The upload middleware (\<open>multer\<close> over \<open>busboy\<close>, line 84, without \<open>preservePath\<close>) is
  not among the sources. It hands the handler, as \<open>req.file.originalname\<close>, the base name
  of the name the client declared: what follows the last slash or backslash, and the
  empty string when that is \<open>.\<close> or \<open>..\<close>. A name with a slash or a backslash never
  reaches the handler.
\<close>

definition basename :: "jsstring \<Rightarrow> jsstring" where
  "basename path =
     (let base = rev (takeWhile (\<lambda>c. c \<noteq> 0x2F \<and> c \<noteq> 0x5C) (rev path))
      in if base = js ''..'' \<or> base = js ''.'' then [] else base)"

text \<open>Lines 201 and 202: the name of the attachment.\<close>

definition pdfName :: "jsstring option \<Rightarrow> jsstring" where
  "pdfName originalname =
     (let originalName = stringOr originalname (js ''export.xlsx'')
      in sanitizeFilename (replaceXlsxExt originalName))"

text \<open>The pattern \<open>^[A-Za-z0-9._-]+\.pdf$\<close> of the specification.\<close>

definition matchesSafePdfName :: "jsstring \<Rightarrow> bool" where
  "matchesSafePdfName s \<longleftrightarrow>
     4 < length s \<and> drop (length s - 4) s = js ''.pdf''
     \<and> list_all safeChar (take (length s - 4) s)"

section \<open>The workbook and its transformation\<close>

text \<open>
  The spreadsheet library is a collaborator; what the handler reads and writes of a loaded
  workbook is modelled as data. A cell value is \<open>null\<close>, a boolean, a number, a string or
  an object (a date, a formula, rich text), which carries the text its \<open>toString()\<close>
  returns. Formatting a non-zero number is floating-point work of the run-time, so a
  non-zero number carries its text as well; \<open>0\<close>, \<open>-0\<close> and \<open>NaN\<close> are the falsy numbers.
\<close>

datatype jsnumber = NaN | Zero | NonZero jsstring

datatype cellValue =
    VNull
  | VBoolean bool
  | VNumber jsnumber
  | VString jsstring
  | VObject jsstring

fun truthy :: "cellValue \<Rightarrow> bool" where
  "truthy VNull \<longleftrightarrow> False"
| "truthy (VBoolean b) \<longleftrightarrow> b"
| "truthy (VNumber NaN) \<longleftrightarrow> False"
| "truthy (VNumber Zero) \<longleftrightarrow> False"
| "truthy (VNumber (NonZero t)) \<longleftrightarrow> True"
| "truthy (VString s) \<longleftrightarrow> s \<noteq> []"
| "truthy (VObject t) \<longleftrightarrow> True"

text \<open>
  \<open>v.toString()\<close>. \<open>null\<close> has no such method; the handler calls it on truthy values
  only, and the equation for \<open>VNull\<close> is never used by the code.
\<close>

fun toString :: "cellValue \<Rightarrow> jsstring" where
  "toString VNull = []"
| "toString (VBoolean b) = (if b then js ''true'' else js ''false'')"
| "toString (VNumber NaN) = js ''NaN''"
| "toString (VNumber Zero) = js ''0''"
| "toString (VNumber (NonZero t)) = t"
| "toString (VString s) = s"
| "toString (VObject t) = t"

record font =
  font_size :: "int option"
  font_rest :: "(jsstring \<times> jsstring) list"

record cell =
  cell_value :: cellValue
  cell_font :: "font option"

text \<open>
  \<open>cells\<close> of a column are the cells that \<open>column.eachCell({ includeEmpty: false }, ...)\<close>
  visits, in row order.
\<close>

record column =
  cells :: "cell list"
  width :: "int option"

record pageSetup =
  orientation :: "jsstring option"
  fitToPage :: "bool option"
  fitToWidth :: "int option"
  fitToHeight :: "int option"
  paperSize :: "int option"
  pageSetup_rest :: "(jsstring \<times> jsstring) list"

text \<open>
  \<open>worksheet.columns\<close> is \<open>null\<close> for a sheet that has no cell and no column
  definition, and an array otherwise.
\<close>

record worksheet =
  columns :: "column list option"
  pageSetup :: pageSetup

record workbook =
  worksheets :: "worksheet list"

text \<open>\<open>{ ...cell.font, size: fontSize }\<close>\<close>

definition setFontSize :: "int \<Rightarrow> font option \<Rightarrow> font option" where
  "setFontSize fontSize f =
     Some ((case f of None \<Rightarrow> \<lparr> font_size = None, font_rest = [] \<rparr> | Some g \<Rightarrow> g)
             \<lparr> font_size := Some fontSize \<rparr>)"

text \<open>
  Lines 141 to 146: the loop over the cells of one column, from the running \<open>maxLength\<close>;
  it returns the cells with their new fonts and the final \<open>maxLength\<close>.
\<close>

fun eachCell :: "int \<Rightarrow> cell list \<Rightarrow> nat \<Rightarrow> cell list \<times> nat" where
  "eachCell fontSize [] maxLength = ([], maxLength)"
| "eachCell fontSize (c # cs) maxLength =
     (let c' = c \<lparr> cell_font := setFontSize fontSize (cell_font c) \<rparr>;
          cellValue = (if truthy (cell_value c) then toString (cell_value c) else []);
          (cs', m) = eachCell fontSize cs (max maxLength (length cellValue))
      in (c' # cs', m))"

text \<open>Lines 140 to 148.\<close>

definition transformColumn :: "int \<Rightarrow> column \<Rightarrow> column" where
  "transformColumn fontSize col =
     (let (cs, maxLength) = eachCell fontSize (cells col) 0
      in col \<lparr> cells := cs, width := Some (min (max (int maxLength + 2) 8) 50) \<rparr>)"

text \<open>
  Lines 140 to 156, the callback of \<open>eachSheet\<close>. \<open>worksheet.columns.forEach\<close> has no
  guard: on a sheet whose \<open>columns\<close> is \<open>null\<close> it throws a \<open>TypeError\<close>.
\<close>

definition transformSheet :: "int \<Rightarrow> jsstring \<Rightarrow> worksheet \<Rightarrow> jsError + worksheet" where
  "transformSheet fontSize landscape ws =
     (case columns ws of
        None \<Rightarrow> Inl typeError
      | Some cols \<Rightarrow>
          Inr (ws \<lparr> columns := Some (map (transformColumn fontSize) cols),
                    pageSetup := (pageSetup ws)
                      \<lparr> orientation :=
                          Some (if landscape = js ''true'' then js ''landscape''
                                else js ''portrait''),
                        fitToPage := Some True,
                        fitToWidth := Some 1,
                        fitToHeight := Some 0,
                        paperSize := Some 9 \<rparr> \<rparr>))"

text \<open>
  Lines 139 to 157: \<open>workbook.eachSheet\<close> calls the callback on the sheets in order; the
  first sheet on which it throws ends the loop, and the sheets after it are not visited.
\<close>

fun eachSheet :: "int \<Rightarrow> jsstring \<Rightarrow> worksheet list \<Rightarrow> jsError + worksheet list" where
  "eachSheet fontSize landscape [] = Inr []"
| "eachSheet fontSize landscape (ws # rest) =
     (case transformSheet fontSize landscape ws of
        Inl err \<Rightarrow> Inl err
      | Inr ws' \<Rightarrow>
          (case eachSheet fontSize landscape rest of
             Inl err \<Rightarrow> Inl err
           | Inr rest' \<Rightarrow> Inr (ws' # rest')))"

definition transformWorkbook :: "int \<Rightarrow> jsstring \<Rightarrow> workbook \<Rightarrow> jsError + workbook" where
  "transformWorkbook fontSize landscape wb =
     (case eachSheet fontSize landscape (worksheets wb) of
        Inl err \<Rightarrow> Inl err
      | Inr sheets \<Rightarrow> Inr (wb \<lparr> worksheets := sheets \<rparr>))"

subsection \<open>The width rule in the words of the specification\<close>

definition clamp :: "int \<Rightarrow> int \<Rightarrow> int \<Rightarrow> int" where
  "clamp x lo hi = (if x < lo then lo else if hi < x then hi else x)"


subsection \<open>Reading a workbook\<close>

text \<open>The columns of a sheet, none when \<open>columns\<close> is \<open>null\<close>.\<close>

definition sheetColumns :: "worksheet \<Rightarrow> column list" where
  "sheetColumns ws = (case columns ws of None \<Rightarrow> [] | Some cols \<Rightarrow> cols)"

text \<open>The cell values of a workbook, by sheet and by column: its content.\<close>

definition cellValues :: "workbook \<Rightarrow> cellValue list list list" where
  "cellValues wb =
     map (\<lambda>ws. map (\<lambda>col. map cell_value (cells col)) (sheetColumns ws)) (worksheets wb)"

text \<open>The font size of every visited cell, and the width of every column.\<close>

definition fontSizes :: "workbook \<Rightarrow> int option list list list" where
  "fontSizes wb =
     map (\<lambda>ws. map (\<lambda>col. map (\<lambda>c. case cell_font c of None \<Rightarrow> None | Some g \<Rightarrow> font_size g)
                               (cells col))
                (sheetColumns ws))
       (worksheets wb)"

definition columnWidths :: "workbook \<Rightarrow> int option list list" where
  "columnWidths wb = map (\<lambda>ws. map width (sheetColumns ws)) (worksheets wb)"

section \<open>The \<open>/convert\<close> handler\<close>

record uploadedFile =
  buffer :: "byte list option"
  originalname :: "jsstring option"

text \<open>The request as the handler sees it: \<open>req.file\<close> and the fields of \<open>req.body\<close>.\<close>

record request =
  reqFile :: "uploadedFile option"
  fontSizeField :: "jsstring option"
  landscapeField :: "jsstring option"
  singlePageSheetsField :: "jsstring option"

text \<open>
  The renderer's reply as the handler reads it: \<open>ok\<close>, \<open>status\<close>, and the outcome of
  reading the body with \<open>text()\<close> or \<open>buffer()\<close>, either of which may reject.
\<close>

record fetchResponse =
  ok :: bool
  status :: int
  textResult :: "jsError + jsstring"
  bufferResult :: "jsError + byte list"

record formData =
  files :: "byte list"
  filename :: jsstring
  contentType :: jsstring
  landscape :: jsstring
  singlePageSheets :: jsstring

text \<open>
  What the collaborators answer during one request: the resident memory reported by
  \<open>getMemoryUsageMB()\<close>, the spreadsheet library's \<open>load\<close> and \<open>writeBuffer\<close>, and
  \<open>fetch\<close> on the renderer's URL. An \<open>Inl\<close> is a rejected promise.
\<close>

record collaborators =
  memoryUsageMB :: int
  xlsxLoad :: "byte list option \<Rightarrow> jsError + workbook"
  xlsxWriteBuffer :: "workbook \<Rightarrow> jsError + byte list"
  fetch :: "formData \<Rightarrow> jsError + fetchResponse"

datatype responseBody = JsonError jsstring | PdfBytes "byte list" | NoBody

datatype headerValue = HeaderString jsstring | HeaderNumber nat

record response =
  statusCode :: int
  headers :: "(string \<times> headerValue) list"
  body :: responseBody

text \<open>
  The statuses whose response carries no body: the framework's \<open>send\<close> empties the body
  for 204, 205 and 304, and the platform writes none for an informational status.
\<close>

definition bodiless :: "int \<Rightarrow> bool" where
  "bodiless code \<longleftrightarrow> (100 \<le> code \<and> code \<le> 199) \<or> code = 204 \<or> code = 205 \<or> code = 304"

text \<open>\<open>res.status(code).json({ error: message })\<close>, as the client receives it.\<close>

definition jsonError :: "int \<Rightarrow> jsstring \<Rightarrow> response" where
  "jsonError code message =
     \<lparr> statusCode = code, headers = [],
       body = (if bodiless code then NoBody else JsonError message) \<rparr>"

text \<open>The value the limited task resolves to (lines 186 and 191).\<close>

datatype taskResult = TaskError int jsstring | TaskData "byte list"

text \<open>
  The components of the specification, recorded in the order in which the handler enters
  them: the memory check (line 113), the checks on \<open>req.file\<close> (lines 119 and 123), the
  call of \<open>limit\<close> (line 134), \<open>workbook.xlsx.load\<close> (line 137), \<open>fetch\<close> (line 176) and
  the response sent (lines 116, 120, 124, 198, 208 and the \<open>catch\<close> block).
\<close>

datatype stage =
    InputValidator
  | AdmissionGuard
  | ConcurrencyLimiter
  | DocumentTransformer
  | RenderDispatcher
  | ResponseComposer

text \<open>Lines 167 to 173: the multipart form sent to the renderer.\<close>

definition renderForm :: "jsstring \<Rightarrow> jsstring \<Rightarrow> byte list \<Rightarrow> formData" where
  "renderForm landscapeOpt singlePageSheetsOpt modifiedBuffer =
     \<lparr> files = modifiedBuffer,
       filename = js ''export.xlsx'',
       contentType = js ''application/vnd.openxmlformats-officedocument.spreadsheetml.sheet'',
       landscape = landscapeOpt,
       singlePageSheets = singlePageSheetsOpt \<rparr>"

text \<open>Lines 163 to 194: the outbound call and the classification of the reply.\<close>

definition renderDispatch ::
  "collaborators \<Rightarrow> jsstring \<Rightarrow> jsstring \<Rightarrow> byte list \<Rightarrow> jsError + taskResult" where
  "renderDispatch ext landscapeOpt singlePageSheetsOpt modifiedBuffer =
     (case fetch ext (renderForm landscapeOpt singlePageSheetsOpt modifiedBuffer) of
        Inl err \<Rightarrow> Inl err
      | Inr gotenbergRes \<Rightarrow>
          if \<not> ok gotenbergRes then
            (case textResult gotenbergRes of
               Inl err \<Rightarrow> Inl err
             | Inr errText \<Rightarrow>
                 Inr (TaskError
                       (if 500 \<le> status gotenbergRes then 502 else status gotenbergRes)
                       (js ''PDF conversion failed'')))
          else
            (case bufferResult gotenbergRes of
               Inl err \<Rightarrow> Inl err
             | Inr pdf \<Rightarrow> Inr (TaskData pdf)))"

text \<open>Lines 134 to 195: the task handed to the limiter, with the stages it enters.\<close>

definition conversionTask ::
  "collaborators \<Rightarrow> uploadedFile \<Rightarrow> int \<Rightarrow> jsstring \<Rightarrow> jsstring
     \<Rightarrow> stage list \<times> (jsError + taskResult)" where
  "conversionTask ext f fontSize landscapeOpt singlePageSheetsOpt =
     (case xlsxLoad ext (buffer f) of
        Inl err \<Rightarrow> ([DocumentTransformer], Inl err)
      | Inr workbook \<Rightarrow>
          (case transformWorkbook fontSize landscapeOpt workbook of
             Inl err \<Rightarrow> ([DocumentTransformer], Inl err)
           | Inr transformed \<Rightarrow>
               (case xlsxWriteBuffer ext transformed of
                  Inl err \<Rightarrow> ([DocumentTransformer], Inl err)
                | Inr modifiedBuffer \<Rightarrow>
                    ([DocumentTransformer, RenderDispatcher],
                     renderDispatch ext landscapeOpt singlePageSheetsOpt modifiedBuffer))))"

text \<open>
  Lines 209 to 221, the \<open>catch\<close> block. The overall request timer of the middleware is
  real time and outside the model: no response has been sent before, \<open>res.headersSent\<close>
  is false.
\<close>

definition handleError :: "jsError \<Rightarrow> response" where
  "handleError err =
     (if errName err = js ''AbortError'' then jsonError 504 (js ''PDF conversion timed out'')
      else if errCode err = Some (js ''LIMIT_FILE_SIZE'') then jsonError 413 (js ''File too large'')
      else jsonError 500 (js ''Internal server error''))"

text \<open>Lines 201 to 208.\<close>

definition successResponse :: "uploadedFile \<Rightarrow> byte list \<Rightarrow> response" where
  "successResponse f pdf =
     \<lparr> statusCode = 200,
       headers =
         [(''Content-Type'', HeaderString (js ''application/pdf'')),
          (''Content-Disposition'',
             HeaderString (js ''attachment; filename=\"'' @ pdfName (originalname f) @ js ''\"'')),
          (''Content-Length'', HeaderNumber (length pdf))],
       body = PdfBytes pdf \<rparr>"

text \<open>Lines 127 and 128.\<close>

definition rawFontSize :: "config \<Rightarrow> jsstring option \<Rightarrow> int" where
  "rawFontSize cfg field = numberOr (parseInt field) (defaultFontSize cfg)"

definition requestFontSize :: "config \<Rightarrow> jsstring option \<Rightarrow> int" where
  "requestFontSize cfg field = min (max (rawFontSize cfg field) 6) 72"

text \<open>Lines 129 and 130.\<close>

definition requestLandscape :: "request \<Rightarrow> jsstring" where
  "requestLandscape req = stringOr (landscapeField req) (js ''true'')"

definition requestSinglePageSheets :: "request \<Rightarrow> jsstring" where
  "requestSinglePageSheets req = stringOr (singlePageSheetsField req) (js ''true'')"

text \<open>
  Lines 111 to 222: the handler of \<open>POST /convert\<close> for one request. It returns the
  stages entered, in order, and the response.
\<close>

definition convert :: "config \<Rightarrow> collaborators \<Rightarrow> request \<Rightarrow> stage list \<times> response" where
  "convert cfg ext req =
     (if memoryLimitMB cfg < memoryUsageMB ext then
        ([AdmissionGuard, ResponseComposer],
         jsonError 503 (js ''Server is under heavy load, please try again later''))
      else
        (case reqFile req of
           None \<Rightarrow>
             ([AdmissionGuard, InputValidator, ResponseComposer],
              jsonError 400 (js ''No file uploaded''))
         | Some f \<Rightarrow>
             if \<not> isValidXlsx (buffer f) then
               ([AdmissionGuard, InputValidator, ResponseComposer],
                jsonError 400 (js ''Invalid file type. Only .xlsx files are accepted''))
             else
               (let fontSize = requestFontSize cfg (fontSizeField req);
                    landscapeOpt = requestLandscape req;
                    singlePageSheetsOpt = requestSinglePageSheets req;
                    (entered, pdfBuffer) =
                      conversionTask ext f fontSize landscapeOpt singlePageSheetsOpt
                in ([AdmissionGuard, InputValidator, ConcurrencyLimiter] @ entered
                      @ [ResponseComposer],
                    (case pdfBuffer of
                       Inl err \<Rightarrow> handleError err
                     | Inr (TaskError code message) \<Rightarrow> jsonError code message
                     | Inr (TaskData pdf) \<Rightarrow> successResponse f pdf)))))"

section \<open>The concurrency limiter\<close>

text \<open>
  Modelled from the spec: the limiter is the \<open>p-limit\<close> package, created on line 90 by
  \<open>pLimit(config.concurrencyLimit)\<close> and called on line 134; its code is not among the
  sources. The specification describes it as a counting admission gate of fixed capacity
  \<open>N\<close>: a scheduled task is enqueued and runs only when fewer than \<open>N\<close> tasks are
  running, queued tasks are admitted first come, first served, and a slot is released
  when a task completes or fails. The state is the list of running tasks and the queue
  of waiting ones; a task is named by the number of its request.
\<close>

record limiter =
  running :: "nat list"
  queued :: "nat list"

text \<open>Modelled from the spec: no task is running or waiting when the service starts.\<close>

definition idle :: limiter where
  "idle = \<lparr> running = [], queued = [] \<rparr>"

text \<open>
  Modelled from the spec: what happens to the limiter. A request schedules its task; a
  running task completes, or it fails.
\<close>

datatype limiterEvent = Schedule nat | Completes nat | Fails nat

text \<open>
  Modelled from the spec: the admission test. The task at the head of the queue starts
  when fewer than \<open>N\<close> tasks are running.
\<close>

definition admit :: "nat \<Rightarrow> limiter \<Rightarrow> limiter" where
  "admit N s =
     (case queued s of
        [] \<Rightarrow> s
      | t # ts \<Rightarrow>
          if length (running s) < N then \<lparr> running = running s @ [t], queued = ts \<rparr> else s)"

text \<open>Modelled from the spec: \<open>schedule(task)\<close> enqueues the task and applies the admission test.\<close>

definition schedule :: "nat \<Rightarrow> nat \<Rightarrow> limiter \<Rightarrow> limiter" where
  "schedule N t s = admit N (s \<lparr> queued := queued s @ [t] \<rparr>)"

text \<open>
  Modelled from the spec: a running task that ends, with a result or with an error, gives
  its slot back, and the admission test is applied again.
\<close>

definition release :: "nat \<Rightarrow> nat \<Rightarrow> limiter \<Rightarrow> limiter" where
  "release N t s =
     (if t \<in> set (running s) then admit N (s \<lparr> running := remove1 t (running s) \<rparr>) else s)"

text \<open>Modelled from the spec: one event, and a sequence of events from the idle limiter.\<close>

fun limiterStep :: "nat \<Rightarrow> limiter \<Rightarrow> limiterEvent \<Rightarrow> limiter" where
  "limiterStep N s (Schedule t) = schedule N t s"
| "limiterStep N s (Completes t) = release N t s"
| "limiterStep N s (Fails t) = release N t s"

definition limiterRun :: "nat \<Rightarrow> limiterEvent list \<Rightarrow> limiter" where
  "limiterRun N events = foldl (limiterStep N) idle events"

text \<open>
  The invariant of the limiter: at most \<open>N\<close> tasks run, and a task waits only while all
  \<open>N\<close> slots are taken.
\<close>

definition limiterInv :: "nat \<Rightarrow> limiter \<Rightarrow> bool" where
  "limiterInv N s \<longleftrightarrow>
     length (running s) \<le> N \<and> (queued s \<noteq> [] \<longrightarrow> length (running s) = N)"

text \<open>
  The event with which the task of request \<open>t\<close> leaves the limiter: the promise returned
  by the task of lines 134 to 195 rejects (\<open>Inl\<close>) or resolves (\<open>Inr\<close>).
\<close>

definition taskEnds :: "nat \<Rightarrow> jsError + taskResult \<Rightarrow> limiterEvent" where
  "taskEnds t outcome = (case outcome of Inl err \<Rightarrow> Fails t | Inr r \<Rightarrow> Completes t)"

section \<open>Sample inputs\<close>

text \<open>Concrete requests and collaborator answers at which the results below are evaluated.\<close>

definition defaultConfig :: config where
  "defaultConfig = loadConfig (\<lambda>name. None)"

definition zipBytes :: "byte list" where
  "zipBytes = [0x50, 0x4B, 0x03, 0x04, 0x14, 0x00]"

definition textBytes :: "byte list" where
  "textBytes = map of_char ''this is not an xlsx file''"

definition pdfBytes :: "byte list" where
  "pdfBytes = [0x25, 0x50, 0x44, 0x46]"

definition upload :: "byte list option \<Rightarrow> jsstring \<Rightarrow> request" where
  "upload bytes name =
     \<lparr> reqFile = Some \<lparr> buffer = bytes, originalname = Some name \<rparr>,
       fontSizeField = None, landscapeField = None, singlePageSheetsField = None \<rparr>"

definition textCell :: "jsstring \<Rightarrow> cell" where
  "textCell s = \<lparr> cell_value = VString s, cell_font = None \<rparr>"

definition sampleColumn :: column where
  "sampleColumn =
     \<lparr> cells = [textCell (js ''Company 42''), textCell (js ''Co''),
                \<lparr> cell_value = VNumber Zero, cell_font = None \<rparr>,
                \<lparr> cell_value = VNull, cell_font = None \<rparr>],
       width = None \<rparr>"

definition sampleWorkbook :: workbook where
  "sampleWorkbook =
     \<lparr> worksheets =
         [\<lparr> columns = Some [sampleColumn],
            pageSetup = \<lparr> orientation = None, fitToPage = None, fitToWidth = None,
                          fitToHeight = None, paperSize = None, pageSetup_rest = [] \<rparr> \<rparr>] \<rparr>"

text \<open>A sheet without cells, and a workbook that begins with one.\<close>

definition emptySheet :: worksheet where
  "emptySheet =
     \<lparr> columns = None,
       pageSetup = \<lparr> orientation = None, fitToPage = None, fitToWidth = None,
                     fitToHeight = None, paperSize = None, pageSetup_rest = [] \<rparr> \<rparr>"

definition workbookWithEmptySheet :: workbook where
  "workbookWithEmptySheet = \<lparr> worksheets = emptySheet # worksheets sampleWorkbook \<rparr>"

text \<open>
  Collaborators that report \<open>mem\<close> megabytes of resident memory, load and serialise every
  workbook, and answer the outbound call with \<open>reply\<close>.
\<close>

definition collaboratorsWith :: "int \<Rightarrow> jsError + fetchResponse \<Rightarrow> collaborators" where
  "collaboratorsWith mem reply =
     \<lparr> memoryUsageMB = mem,
       xlsxLoad = (\<lambda>bytes. Inr sampleWorkbook),
       xlsxWriteBuffer = (\<lambda>wb. Inr zipBytes),
       fetch = (\<lambda>form. reply) \<rparr>"

text \<open>
  Serialisers that check what they are given: one succeeds only on a workbook whose
  visited cells all have font size \<open>n\<close>, the other only on a workbook with the column
  widths \<open>ws\<close>.
\<close>

definition writeIfFontSize :: "int \<Rightarrow> workbook \<Rightarrow> jsError + byte list" where
  "writeIfFontSize n wb =
     (if list_all (list_all (list_all (\<lambda>size. size = Some n))) (fontSizes wb)
      then Inr zipBytes else Inl typeError)"

definition writeIfWidths :: "int option list list \<Rightarrow> workbook \<Rightarrow> jsError + byte list" where
  "writeIfWidths ws wb = (if columnWidths wb = ws then Inr zipBytes else Inl typeError)"

definition errorReply :: "int \<Rightarrow> fetchResponse" where
  "errorReply code =
     \<lparr> ok = False, status = code,
       textResult = Inr (js ''upstream stack trace''), bufferResult = Inr [] \<rparr>"

text \<open>A reply whose body cannot be read: the cancellation signal fires during the read.\<close>

definition unreadableReply :: "int \<Rightarrow> fetchResponse" where
  "unreadableReply code =
     \<lparr> ok = False, status = code,
       textResult = Inl \<lparr> errName = js ''AbortError'', errCode = None \<rparr>,
       bufferResult = Inl \<lparr> errName = js ''AbortError'', errCode = None \<rparr> \<rparr>"

definition pdfReply :: fetchResponse where
  "pdfReply = \<lparr> ok = True, status = 200, textResult = Inr [], bufferResult = Inr pdfBytes \<rparr>"

definition abortError :: jsError where
  "abortError = \<lparr> errName = js ''AbortError'', errCode = None \<rparr>"

definition connectionRefused :: jsError where
  "connectionRefused = \<lparr> errName = js ''FetchError'', errCode = Some (js ''ECONNREFUSED'') \<rparr>"

section \<open>Auxiliary facts\<close>

lemmas sample_defs =
  defaultConfig_def loadConfig_def upload_def collaboratorsWith_def errorReply_def pdfReply_def
  abortError_def connectionRefused_def zipBytes_def textBytes_def pdfBytes_def
  unreadableReply_def

lemmas parse_defs =
  parseInt_def numberOr_def stringOr_def js_def isWhiteSpace_def digitValue_def radixValue_def

lemmas handler_defs =
  convert_def conversionTask_def renderDispatch_def handleError_def jsonError_def bodiless_def
  isValidXlsx_def XLSX_MAGIC_def requestFontSize_def rawFontSize_def requestLandscape_def
  requestSinglePageSheets_def transformWorkbook_def transformSheet_def sampleWorkbook_def

lemma clamp_min_max: "lo \<le> hi \<Longrightarrow> min (max x lo) hi = clamp x lo hi"
  by (simp add: clamp_def)

lemma isValidXlsx_iff: "isValidXlsx (Some b) \<longleftrightarrow> take 4 b = XLSX_MAGIC"
  by (auto simp: isValidXlsx_def XLSX_MAGIC_def)

lemma isValidXlsx_None: "\<not> isValidXlsx None"
  by (simp add: isValidXlsx_def)

lemma isValidXlsx_short: "length b < 4 \<Longrightarrow> \<not> isValidXlsx (Some b)"
  by (simp add: isValidXlsx_def)

lemma convert_overloaded:
  "memoryLimitMB cfg < memoryUsageMB ext \<Longrightarrow>
   convert cfg ext req =
     ([AdmissionGuard, ResponseComposer],
      jsonError 503 (js ''Server is under heavy load, please try again later''))"
  by (simp add: convert_def)

lemma convert_no_file:
  "\<not> memoryLimitMB cfg < memoryUsageMB ext \<Longrightarrow> reqFile req = None \<Longrightarrow>
   convert cfg ext req =
     ([AdmissionGuard, InputValidator, ResponseComposer], jsonError 400 (js ''No file uploaded''))"
  by (simp add: convert_def)

lemma convert_invalid:
  "\<not> memoryLimitMB cfg < memoryUsageMB ext \<Longrightarrow> reqFile req = Some f \<Longrightarrow>
   \<not> isValidXlsx (buffer f) \<Longrightarrow>
   convert cfg ext req =
     ([AdmissionGuard, InputValidator, ResponseComposer],
      jsonError 400 (js ''Invalid file type. Only .xlsx files are accepted''))"
  by (simp add: convert_def)

lemma convert_admitted:
  "\<not> memoryLimitMB cfg < memoryUsageMB ext \<Longrightarrow> reqFile req = Some f \<Longrightarrow>
   isValidXlsx (buffer f) \<Longrightarrow>
   conversionTask ext f (requestFontSize cfg (fontSizeField req)) (requestLandscape req)
     (requestSinglePageSheets req) = (entered, r) \<Longrightarrow>
   convert cfg ext req =
     ([AdmissionGuard, InputValidator, ConcurrencyLimiter] @ entered @ [ResponseComposer],
      (case r of
         Inl err \<Rightarrow> handleError err
       | Inr (TaskError code message) \<Rightarrow> jsonError code message
       | Inr (TaskData pdf) \<Rightarrow> successResponse f pdf))"
  by (simp add: convert_def)

lemma conversionTask_dispatched:
  "xlsxLoad ext (buffer f) = Inr wb \<Longrightarrow>
   transformWorkbook fs l wb = Inr transformed \<Longrightarrow>
   xlsxWriteBuffer ext transformed = Inr modified \<Longrightarrow>
   conversionTask ext f fs l s =
     ([DocumentTransformer, RenderDispatcher], renderDispatch ext l s modified)"
  by (simp add: conversionTask_def)

lemma conversionTask_transform_throws:
  "xlsxLoad ext (buffer f) = Inr wb \<Longrightarrow>
   transformWorkbook fs l wb = Inl err \<Longrightarrow>
   conversionTask ext f fs l s = ([DocumentTransformer], Inl err)"
  by (simp add: conversionTask_def)

lemma conversionTask_write_fails:
  "xlsxLoad ext (buffer f) = Inr wb \<Longrightarrow>
   transformWorkbook fs l wb = Inr transformed \<Longrightarrow>
   xlsxWriteBuffer ext transformed = Inl err \<Longrightarrow>
   conversionTask ext f fs l s = ([DocumentTransformer], Inl err)"
  by (simp add: conversionTask_def)

lemma conversionTask_entered:
  "fst (conversionTask ext f fs l s) = [DocumentTransformer] \<or>
   fst (conversionTask ext f fs l s) = [DocumentTransformer, RenderDispatcher]"
  by (simp add: conversionTask_def split: sum.splits)

lemma convert_dispatched:
  assumes "\<not> memoryLimitMB cfg < memoryUsageMB ext"
    and "reqFile req = Some f"
    and "isValidXlsx (buffer f)"
    and "xlsxLoad ext (buffer f) = Inr wb"
    and "transformWorkbook (requestFontSize cfg (fontSizeField req)) (requestLandscape req) wb
         = Inr transformed"
    and "xlsxWriteBuffer ext transformed = Inr modified"
  shows "snd (convert cfg ext req) =
     (case renderDispatch ext (requestLandscape req) (requestSinglePageSheets req) modified of
        Inl err \<Rightarrow> handleError err
      | Inr (TaskError code message) \<Rightarrow> jsonError code message
      | Inr (TaskData pdf) \<Rightarrow> successResponse f pdf)"
  using convert_admitted [OF assms(1-3) conversionTask_dispatched [OF assms(4-6)]]
  by simp

lemma stages_cases:
  "fst (convert cfg ext req) \<in>
     {[AdmissionGuard, ResponseComposer],
      [AdmissionGuard, InputValidator, ResponseComposer],
      [AdmissionGuard, InputValidator, ConcurrencyLimiter, DocumentTransformer,
       ResponseComposer],
      [AdmissionGuard, InputValidator, ConcurrencyLimiter, DocumentTransformer,
       RenderDispatcher, ResponseComposer]}"
proof (cases "memoryLimitMB cfg < memoryUsageMB ext")
  case True
  then show ?thesis by (simp add: convert_overloaded)
next
  case admitted: False
  show ?thesis
  proof (cases "reqFile req")
    case None
    with admitted show ?thesis by (simp add: convert_no_file)
  next
    case (Some f)
    show ?thesis
    proof (cases "isValidXlsx (buffer f)")
      case False
      with admitted Some show ?thesis by (simp add: convert_invalid)
    next
      case True
      obtain entered r where task:
        "conversionTask ext f (requestFontSize cfg (fontSizeField req)) (requestLandscape req)
           (requestSinglePageSheets req) = (entered, r)"
        by (cases "conversionTask ext f (requestFontSize cfg (fontSizeField req))
              (requestLandscape req) (requestSinglePageSheets req)")
      have "entered = [DocumentTransformer] \<or> entered = [DocumentTransformer, RenderDispatcher]"
        using conversionTask_entered [of ext f "requestFontSize cfg (fontSizeField req)"
            "requestLandscape req" "requestSinglePageSheets req"] task by simp
      then show ?thesis
        using convert_admitted [OF admitted Some True task] by auto
    qed
  qed
qed

section \<open>An upload without the container signature\<close>

text \<open>
  Claim C1, as amended. An upload whose first four bytes are not the signature
  \<open>PK\x03\x04\<close> never reaches the Document Transformer or the Render Dispatcher: the
  stages entered hold neither, and the outcome is the same whatever the spreadsheet
  library and the renderer would answer. The handler measures memory first: when the resident memory is within the limit the response
  is 400 with the invalid-file-type message, and when it is above the limit the response
  is 503, whatever the upload holds.
\<close>

theorem invalid_signature_rejected:
  assumes "reqFile req = Some f"
    and "\<forall>b. buffer f = Some b \<longrightarrow> take 4 b \<noteq> XLSX_MAGIC"
  shows "DocumentTransformer \<notin> set (fst (convert cfg ext req))
       \<and> RenderDispatcher \<notin> set (fst (convert cfg ext req))
       \<and> convert cfg (ext \<lparr> xlsxLoad := load', xlsxWriteBuffer := write', fetch := fetch' \<rparr>) req
           = convert cfg ext req
       \<and> (memoryUsageMB ext \<le> memoryLimitMB cfg \<longrightarrow>
            snd (convert cfg ext req) =
              jsonError 400 (js ''Invalid file type. Only .xlsx files are accepted''))
       \<and> (memoryLimitMB cfg < memoryUsageMB ext \<longrightarrow>
            snd (convert cfg ext req) =
              jsonError 503 (js ''Server is under heavy load, please try again later''))"
proof -
  have invalid: "\<not> isValidXlsx (buffer f)"
  proof (cases "buffer f")
    case None
    then show ?thesis by (simp add: isValidXlsx_None)
  next
    case (Some b)
    with assms(2) show ?thesis by (simp add: isValidXlsx_iff)
  qed
  let ?ext' = "ext \<lparr> xlsxLoad := load', xlsxWriteBuffer := write', fetch := fetch' \<rparr>"
  show ?thesis
  proof (cases "memoryLimitMB cfg < memoryUsageMB ext")
    case True
    then have "memoryLimitMB cfg < memoryUsageMB ?ext'" by simp
    with True show ?thesis by (simp add: convert_overloaded)
  next
    case False
    then have "\<not> memoryLimitMB cfg < memoryUsageMB ?ext'" by simp
    then have "convert cfg ?ext' req = convert cfg ext req"
      using convert_invalid [OF False assms(1) invalid] convert_invalid [OF _ assms(1) invalid]
      by simp
    with False show ?thesis using convert_invalid [OF False assms(1) invalid] by simp
  qed
qed

theorem invalid_signature_rejected_witness:
  "take 4 textBytes \<noteq> XLSX_MAGIC
   \<and> convert defaultConfig (collaboratorsWith 100 (Inr pdfReply))
       (upload (Some textBytes) (js ''bad.xlsx'')) =
     ([AdmissionGuard, InputValidator, ResponseComposer],
      jsonError 400 (js ''Invalid file type. Only .xlsx files are accepted''))"
proof -
  have differs: "take 4 textBytes \<noteq> XLSX_MAGIC"
    by (simp add: textBytes_def XLSX_MAGIC_def)
  have stages: "fst (convert defaultConfig (collaboratorsWith 100 (Inr pdfReply))
       (upload (Some textBytes) (js ''bad.xlsx''))) = [AdmissionGuard, InputValidator, ResponseComposer]"
    by (simp add: sample_defs parse_defs handler_defs)
  have "snd (convert defaultConfig (collaboratorsWith 100 (Inr pdfReply))
       (upload (Some textBytes) (js ''bad.xlsx''))) =
     jsonError 400 (js ''Invalid file type. Only .xlsx files are accepted'')"
    using differs
      invalid_signature_rejected [where req = "upload (Some textBytes) (js ''bad.xlsx'')"
        and f = "\<lparr> buffer = Some textBytes, originalname = Some (js ''bad.xlsx'') \<rparr>"
        and cfg = defaultConfig and ext = "collaboratorsWith 100 (Inr pdfReply)"]
    by (simp add: upload_def collaboratorsWith_def defaultConfig_def loadConfig_def parse_defs)
  with differs stages show ?thesis by (simp add: prod_eq_iff)
qed

theorem invalid_signature_overloaded_counterexample:
  "take 4 textBytes \<noteq> XLSX_MAGIC
   \<and> statusCode (snd (convert defaultConfig (collaboratorsWith 600 (Inr pdfReply))
        (upload (Some textBytes) (js ''bad.xlsx'')))) = 503"
  by (simp add: sample_defs parse_defs handler_defs)


text \<open>
  Claim C10, as amended. \<open>isValidXlsx\<close> returns false on \<open>null\<close>, on \<open>undefined\<close> and
  on every buffer shorter than four bytes, and reads the first four bytes of no such
  input. An upload of that kind is never answered with an internal fault (500): it is
  rejected with 400 and the invalid-file-type message when the resident memory is within
  the limit, and with 503 when it is above the limit.
\<close>

theorem isValidXlsx_total_at_boundary:
  "\<not> isValidXlsx None
   \<and> (length b < 4 \<longrightarrow> \<not> isValidXlsx (Some b))
   \<and> (reqFile req = Some f \<and> (buffer f = None \<or> buffer f = Some b \<and> length b < 4) \<longrightarrow>
        (memoryUsageMB ext \<le> memoryLimitMB cfg \<longrightarrow>
           snd (convert cfg ext req) =
             jsonError 400 (js ''Invalid file type. Only .xlsx files are accepted''))
        \<and> (memoryLimitMB cfg < memoryUsageMB ext \<longrightarrow>
             snd (convert cfg ext req) =
               jsonError 503 (js ''Server is under heavy load, please try again later''))
        \<and> statusCode (snd (convert cfg ext req)) \<noteq> 500)"
proof -
  have handler: ?thesis
    if upl: "reqFile req = Some f" and invalid: "\<not> isValidXlsx (buffer f)"
  proof (cases "memoryLimitMB cfg < memoryUsageMB ext")
    case True
    then show ?thesis
      by (simp add: convert_overloaded jsonError_def isValidXlsx_None isValidXlsx_short)
  next
    case False
    then show ?thesis
      using convert_invalid [OF False upl invalid]
      by (simp add: jsonError_def isValidXlsx_None isValidXlsx_short)
  qed
  show ?thesis
  proof (cases "reqFile req = Some f \<and> (buffer f = None \<or> buffer f = Some b \<and> length b < 4)")
    case True
    then have "\<not> isValidXlsx (buffer f)"
      by (auto simp: isValidXlsx_None isValidXlsx_short)
    with True handler show ?thesis by blast
  next
    case False
    then show ?thesis by (auto simp: isValidXlsx_None isValidXlsx_short)
  qed
qed

theorem isValidXlsx_total_at_boundary_witness:
  "length [0x50, 0x4B :: byte] < 4
   \<and> \<not> isValidXlsx (Some [0x50, 0x4B])
   \<and> snd (convert defaultConfig (collaboratorsWith 100 (Inr pdfReply))
        (upload (Some [0x50, 0x4B]) (js ''tiny.xlsx''))) =
       jsonError 400 (js ''Invalid file type. Only .xlsx files are accepted'')
   \<and> snd (convert defaultConfig (collaboratorsWith 100 (Inr pdfReply))
        (upload None (js ''tiny.xlsx''))) =
       jsonError 400 (js ''Invalid file type. Only .xlsx files are accepted'')"
  using
    isValidXlsx_total_at_boundary [of "[0x50, 0x4B]" "upload (Some [0x50, 0x4B]) (js ''tiny.xlsx'')"
      "\<lparr> buffer = Some [0x50, 0x4B], originalname = Some (js ''tiny.xlsx'') \<rparr>"
      "collaboratorsWith 100 (Inr pdfReply)" defaultConfig]
    isValidXlsx_total_at_boundary [of "[]" "upload None (js ''tiny.xlsx'')"
      "\<lparr> buffer = None, originalname = Some (js ''tiny.xlsx'') \<rparr>"
      "collaboratorsWith 100 (Inr pdfReply)" defaultConfig]
  by (simp add: upload_def collaboratorsWith_def defaultConfig_def loadConfig_def parse_defs)

theorem short_upload_overloaded_counterexample:
  "length [0x50, 0x4B :: byte] < 4
   \<and> snd (convert defaultConfig (collaboratorsWith 600 (Inr pdfReply))
        (upload (Some [0x50, 0x4B]) (js ''tiny.xlsx''))) =
       jsonError 503 (js ''Server is under heavy load, please try again later'')
   \<and> statusCode (snd (convert defaultConfig (collaboratorsWith 600 (Inr pdfReply))
        (upload (Some [0x50, 0x4B]) (js ''tiny.xlsx'')))) \<noteq> 400"
  by (simp add: sample_defs parse_defs handler_defs)

section \<open>Classification of the renderer's outcome\<close>

text \<open>
  Claim C2, as amended. When the renderer answers with a non-success HTTP status (100 to
  599) and the handler has read the error body, the client receives 502 for a status in
  \<open>[500, 599]\<close> and the renderer's own status for any other. The body is the fixed
  message \<open>PDF conversion failed\<close>, except under a passed-through status that carries no
  body (304, and 204, 205 or an informational status), where the client receives none;
  it never holds the renderer's error body. When reading the error body fails, the
  \<open>catch\<close> block answers instead: 504 for an \<open>AbortError\<close>, otherwise 413 or 500.
\<close>

theorem upstream_error_response:
  assumes "memoryUsageMB ext \<le> memoryLimitMB cfg"
    and "reqFile req = Some f"
    and "isValidXlsx (buffer f)"
    and "xlsxLoad ext (buffer f) = Inr wb"
    and "transformWorkbook (requestFontSize cfg (fontSizeField req)) (requestLandscape req) wb
         = Inr transformed"
    and "xlsxWriteBuffer ext transformed = Inr modified"
    and "fetch ext (renderForm (requestLandscape req) (requestSinglePageSheets req) modified)
         = Inr gotenbergRes"
    and "\<not> ok gotenbergRes"
    and "100 \<le> status gotenbergRes"
    and "status gotenbergRes \<le> 599"
  shows "(\<forall>errText. textResult gotenbergRes = Inr errText \<longrightarrow>
            statusCode (snd (convert cfg ext req)) =
              (if 500 \<le> status gotenbergRes \<and> status gotenbergRes \<le> 599 then 502
               else status gotenbergRes)
            \<and> body (snd (convert cfg ext req)) =
                (if bodiless (status gotenbergRes) then NoBody
                 else JsonError (js ''PDF conversion failed'')))
       \<and> (\<forall>err. textResult gotenbergRes = Inl err \<longrightarrow>
            snd (convert cfg ext req) = handleError err)"
proof (intro conjI allI impI)
  have admitted: "\<not> memoryLimitMB cfg < memoryUsageMB ext"
    using assms(1) by simp
  note response = convert_dispatched [OF admitted assms(2-6)]
  {
    fix errText
    assume "textResult gotenbergRes = Inr errText"
    then have task:
      "renderDispatch ext (requestLandscape req) (requestSinglePageSheets req) modified =
         Inr (TaskError (if 500 \<le> status gotenbergRes then 502 else status gotenbergRes)
               (js ''PDF conversion failed''))"
      using assms(7,8) by (simp add: renderDispatch_def)
    show "statusCode (snd (convert cfg ext req)) =
              (if 500 \<le> status gotenbergRes \<and> status gotenbergRes \<le> 599 then 502
               else status gotenbergRes)"
      using response task assms(10) by (simp add: jsonError_def)
    show "body (snd (convert cfg ext req)) =
                (if bodiless (status gotenbergRes) then NoBody
                 else JsonError (js ''PDF conversion failed''))"
      using response task by (simp add: jsonError_def bodiless_def)
  }
  {
    fix err
    assume "textResult gotenbergRes = Inl err"
    then have "renderDispatch ext (requestLandscape req) (requestSinglePageSheets req) modified
                 = Inl err"
      using assms(7,8) by (simp add: renderDispatch_def)
    then show "snd (convert cfg ext req) = handleError err"
      using response by simp
  }
qed

theorem upstream_error_response_witness:
  "snd (convert defaultConfig (collaboratorsWith 100 (Inr (errorReply 500)))
      (upload (Some zipBytes) (js ''report.xlsx''))) = jsonError 502 (js ''PDF conversion failed'')
   \<and> snd (convert defaultConfig (collaboratorsWith 100 (Inr (errorReply 404)))
      (upload (Some zipBytes) (js ''report.xlsx''))) = jsonError 404 (js ''PDF conversion failed'')
   \<and> body (jsonError 404 (js ''PDF conversion failed'')) = JsonError (js ''PDF conversion failed'')"
proof -
  have eval:
    "snd (convert defaultConfig (collaboratorsWith 100 (Inr (errorReply 500)))
      (upload (Some zipBytes) (js ''report.xlsx''))) = jsonError 502 (js ''PDF conversion failed'')"
    "snd (convert defaultConfig (collaboratorsWith 100 (Inr (errorReply 404)))
      (upload (Some zipBytes) (js ''report.xlsx''))) = jsonError 404 (js ''PDF conversion failed'')"
    by (simp_all add: sample_defs parse_defs handler_defs)
  have "body (snd (convert defaultConfig (collaboratorsWith 100 (Inr (errorReply 404)))
      (upload (Some zipBytes) (js ''report.xlsx'')))) = JsonError (js ''PDF conversion failed'')"
    using upstream_error_response [where ext = "collaboratorsWith 100 (Inr (errorReply 404))"
        and cfg = defaultConfig and req = "upload (Some zipBytes) (js ''report.xlsx'')"
        and f = "\<lparr> buffer = Some zipBytes, originalname = Some (js ''report.xlsx'') \<rparr>"
        and wb = sampleWorkbook and modified = zipBytes and gotenbergRes = "errorReply 404"]
    by (simp add: upload_def collaboratorsWith_def defaultConfig_def loadConfig_def parse_defs
        errorReply_def zipBytes_def isValidXlsx_def XLSX_MAGIC_def transformWorkbook_def
        transformSheet_def sampleWorkbook_def requestFontSize_def rawFontSize_def
        requestLandscape_def bodiless_def)
  with eval show ?thesis by simp
qed

theorem not_modified_without_body_counterexample:
  "\<not> ok (errorReply 304) \<and> status (errorReply 304) = 304
   \<and> textResult (errorReply 304) = Inr (js ''upstream stack trace'')
   \<and> snd (convert defaultConfig (collaboratorsWith 100 (Inr (errorReply 304)))
        (upload (Some zipBytes) (js ''report.xlsx''))) =
       \<lparr> statusCode = 304, headers = [], body = NoBody \<rparr>
   \<and> \<not> ok (unreadableReply 500) \<and> status (unreadableReply 500) = 500
   \<and> snd (convert defaultConfig (collaboratorsWith 100 (Inr (unreadableReply 500)))
        (upload (Some zipBytes) (js ''report.xlsx''))) =
       jsonError 504 (js ''PDF conversion timed out'')"
  by (simp add: sample_defs parse_defs handler_defs)

text \<open>
  Claim C3, as amended. When the outbound call rejects with an error named
  \<open>AbortError\<close>, which is what the cancellation signal of the timeout produces, the
  client receives 504 with \<open>PDF conversion timed out\<close>. A call that rejects with any
  other error, a refused connection among them, is answered 500 with
  \<open>Internal server error\<close> (413 when the error carries the code \<open>LIMIT_FILE_SIZE\<close>).
\<close>

theorem renderer_call_failure:
  assumes "memoryUsageMB ext \<le> memoryLimitMB cfg"
    and "reqFile req = Some f"
    and "isValidXlsx (buffer f)"
    and "xlsxLoad ext (buffer f) = Inr wb"
    and "transformWorkbook (requestFontSize cfg (fontSizeField req)) (requestLandscape req) wb
         = Inr transformed"
    and "xlsxWriteBuffer ext transformed = Inr modified"
    and "fetch ext (renderForm (requestLandscape req) (requestSinglePageSheets req) modified)
         = Inl err"
  shows "(errName err = js ''AbortError'' \<longrightarrow>
            snd (convert cfg ext req) = jsonError 504 (js ''PDF conversion timed out''))
       \<and> (errName err \<noteq> js ''AbortError'' \<longrightarrow>
            snd (convert cfg ext req) =
              (if errCode err = Some (js ''LIMIT_FILE_SIZE'')
               then jsonError 413 (js ''File too large'')
               else jsonError 500 (js ''Internal server error'')))"
proof -
  have admitted: "\<not> memoryLimitMB cfg < memoryUsageMB ext"
    using assms(1) by simp
  have "renderDispatch ext (requestLandscape req) (requestSinglePageSheets req) modified = Inl err"
    using assms(7) by (simp add: renderDispatch_def)
  then have "snd (convert cfg ext req) = handleError err"
    using convert_dispatched [OF admitted assms(2-6)] by simp
  then show ?thesis
    by (simp add: handleError_def)
qed

theorem renderer_call_failure_witness:
  "errName abortError = js ''AbortError''
   \<and> snd (convert defaultConfig (collaboratorsWith 100 (Inl abortError))
        (upload (Some zipBytes) (js ''report.xlsx''))) =
       jsonError 504 (js ''PDF conversion timed out'')"
  using
    renderer_call_failure [where ext = "collaboratorsWith 100 (Inl abortError)"
      and cfg = defaultConfig and req = "upload (Some zipBytes) (js ''report.xlsx'')"
      and f = "\<lparr> buffer = Some zipBytes, originalname = Some (js ''report.xlsx'') \<rparr>"
      and wb = sampleWorkbook and modified = zipBytes and err = abortError]
  by (simp add: upload_def collaboratorsWith_def defaultConfig_def loadConfig_def parse_defs
      abortError_def zipBytes_def isValidXlsx_def XLSX_MAGIC_def transformWorkbook_def
      transformSheet_def sampleWorkbook_def requestFontSize_def rawFontSize_def
      requestLandscape_def)

theorem connection_refused_counterexample:
  "errName connectionRefused = js ''FetchError''
   \<and> snd (convert defaultConfig (collaboratorsWith 100 (Inl connectionRefused))
        (upload (Some zipBytes) (js ''report.xlsx''))) =
       jsonError 500 (js ''Internal server error'')
   \<and> statusCode (snd (convert defaultConfig (collaboratorsWith 100 (Inl connectionRefused))
        (upload (Some zipBytes) (js ''report.xlsx'')))) \<noteq> 504"
  by (simp add: sample_defs parse_defs handler_defs)

section \<open>Order of the stages\<close>

text \<open>
  Claim C8, as amended. For every request the stages are entered in the order Admission
  Guard, Input Validator, Concurrency Limiter, Document Transformer, Render Dispatcher,
  Response Composer: the stages a request enters form a subsequence of that list, which
  begins with the Admission Guard and ends with the Response Composer. The memory check
  comes before the checks on the uploaded file, not after them.
\<close>

theorem stage_order:
  "subseq (fst (convert cfg ext req))
     [AdmissionGuard, InputValidator, ConcurrencyLimiter, DocumentTransformer, RenderDispatcher,
      ResponseComposer]
   \<and> hd (fst (convert cfg ext req)) = AdmissionGuard
   \<and> last (fst (convert cfg ext req)) = ResponseComposer"
  using stages_cases [of cfg ext req] by auto

theorem stage_order_witness:
  "subseq (fst (convert defaultConfig (collaboratorsWith 100 (Inl abortError))
      (upload (Some zipBytes) (js ''report.xlsx''))))
     [AdmissionGuard, InputValidator, ConcurrencyLimiter, DocumentTransformer, RenderDispatcher,
      ResponseComposer]"
  using stage_order [of defaultConfig "collaboratorsWith 100 (Inl abortError)"
      "upload (Some zipBytes) (js ''report.xlsx'')"]
  by simp

theorem validator_after_guard_counterexample:
  "fst (convert defaultConfig (collaboratorsWith 100 (Inr pdfReply))
      (upload (Some zipBytes) (js ''report.xlsx''))) =
     [AdmissionGuard, InputValidator, ConcurrencyLimiter, DocumentTransformer, RenderDispatcher,
      ResponseComposer]
   \<and> \<not> subseq (fst (convert defaultConfig (collaboratorsWith 100 (Inr pdfReply))
          (upload (Some zipBytes) (js ''report.xlsx''))))
        [InputValidator, AdmissionGuard, ConcurrencyLimiter, DocumentTransformer,
         RenderDispatcher, ResponseComposer]
   \<and> convert defaultConfig (collaboratorsWith 600 (Inr pdfReply))
       \<lparr> reqFile = None, fontSizeField = None, landscapeField = None,
         singlePageSheetsField = None \<rparr> =
     ([AdmissionGuard, ResponseComposer],
      jsonError 503 (js ''Server is under heavy load, please try again later''))"
  by (simp add: sample_defs parse_defs handler_defs)


section \<open>The transformation of the workbook\<close>

subsection \<open>The loops over a column and over the sheets\<close>

lemma eachCell_fst:
  "fst (eachCell fs cs m) = map (\<lambda>c. c \<lparr> cell_font := setFontSize fs (cell_font c) \<rparr>) cs"
  by (induction cs arbitrary: m) (simp_all add: Let_def case_prod_beta)

lemma eachCell_snd_Cons:
  "snd (eachCell fs (c # cs) m) =
     snd (eachCell fs cs
       (max m (length (if truthy (cell_value c) then toString (cell_value c) else []))))"
  by (simp add: Let_def case_prod_beta)


lemma eachCell_snd_values:
  "map cell_value cs = map cell_value cs' \<Longrightarrow> snd (eachCell fs cs m) = snd (eachCell fs' cs' m)"
proof (induction cs arbitrary: cs' m)
  case Nil
  then show ?case by simp
next
  case (Cons c cs)
  then obtain c' ds where cs': "cs' = c' # ds" and v: "cell_value c = cell_value c'"
    and rest: "map cell_value cs = map cell_value ds"
    by (cases cs') auto
  show ?case
    unfolding cs' eachCell_snd_Cons v by (rule Cons.IH [OF rest])
qed







lemma cells_transformColumn:
  "cells (transformColumn fs col) =
     map (\<lambda>c. c \<lparr> cell_font := setFontSize fs (cell_font c) \<rparr>) (cells col)"
  by (simp add: transformColumn_def case_prod_beta eachCell_fst)

lemma width_transformColumn:
  "width (transformColumn fs col) = Some (min (max (int (snd (eachCell fs (cells col) 0)) + 2) 8) 50)"
  by (simp add: transformColumn_def case_prod_beta)

lemma values_transformColumn:
  "map cell_value (cells (transformColumn fs col)) = map cell_value (cells col)"
  by (simp add: cells_transformColumn comp_def)


lemma setFontSize_idem: "setFontSize fs (setFontSize fs f) = setFontSize fs f"
  by (simp add: setFontSize_def)

lemma transformColumn_idem: "transformColumn fs (transformColumn fs col) = transformColumn fs col"
proof -
  have "snd (eachCell fs (cells (transformColumn fs col)) 0) = snd (eachCell fs (cells col) 0)"
    by (rule eachCell_snd_values) (rule values_transformColumn)
  moreover have "fst (eachCell fs (cells (transformColumn fs col)) 0) = cells (transformColumn fs col)"
    by (simp add: eachCell_fst cells_transformColumn setFontSize_idem comp_def)
  ultimately show ?thesis
    by (simp add: transformColumn_def [of fs "transformColumn fs col"] case_prod_beta
        width_transformColumn)
qed


lemma font_transformColumn:
  "c \<in> set (cells (transformColumn fs col)) \<Longrightarrow>
   \<exists>f. cell_font c = Some f \<and> font_size f = Some fs"
  by (auto simp: cells_transformColumn setFontSize_def)


lemma transformSheet_Inr:
  assumes "transformSheet fs l ws = Inr ws'"
  obtains cols where "columns ws = Some cols"
    and "columns ws' = Some (map (transformColumn fs) cols)"
    and "pageSetup ws' = (pageSetup ws)
            \<lparr> orientation :=
                Some (if l = js ''true'' then js ''landscape'' else js ''portrait''),
              fitToPage := Some True, fitToWidth := Some 1, fitToHeight := Some 0,
              paperSize := Some 9 \<rparr>"
  using assms by (cases "columns ws") (auto simp: transformSheet_def)

lemma transformSheet_None: "columns ws = None \<Longrightarrow> transformSheet fs l ws = Inl typeError"
  by (simp add: transformSheet_def)

lemma transformSheet_idem:
  assumes "transformSheet fs l ws = Inr ws'"
  shows "transformSheet fs l ws' = Inr ws'"
  using assms
  by (cases "columns ws") (auto simp: transformSheet_def transformColumn_idem comp_def)

lemma eachSheet_Inr_iff:
  "eachSheet fs l wss = Inr r \<longleftrightarrow>
     list_all2 (\<lambda>ws ws'. transformSheet fs l ws = Inr ws') wss r"
proof (induction wss arbitrary: r)
  case Nil
  show ?case by auto
next
  case (Cons ws wss)
  show ?case
  proof (cases "transformSheet fs l ws")
    case (Inl err)
    then show ?thesis by (auto simp: list_all2_Cons1)
  next
    case (Inr ws')
    then show ?thesis
      using Cons.IH by (cases "eachSheet fs l wss") (auto simp: list_all2_Cons1)
  qed
qed

lemma eachSheet_succeeds:
  "\<forall>ws \<in> set wss. columns ws \<noteq> None \<Longrightarrow> \<exists>r. eachSheet fs l wss = Inr r"
proof (induction wss)
  case Nil
  show ?case by simp
next
  case (Cons ws wss)
  then obtain cols r where "columns ws = Some cols" "eachSheet fs l wss = Inr r"
    by auto
  then show ?case by (simp add: transformSheet_def)
qed

lemma eachSheet_throws:
  "\<exists>ws \<in> set wss. columns ws = None \<Longrightarrow> eachSheet fs l wss = Inl typeError"
proof (induction wss)
  case Nil
  then show ?case by simp
next
  case (Cons ws wss)
  show ?case
  proof (cases "columns ws")
    case None
    then show ?thesis by (simp add: transformSheet_def)
  next
    case (Some cols)
    with Cons.prems have "\<exists>ws \<in> set wss. columns ws = None" by auto
    then have "eachSheet fs l wss = Inl typeError" by (rule Cons.IH)
    with Some show ?thesis by (simp add: transformSheet_def)
  qed
qed

lemma transformWorkbook_Inr:
  assumes "transformWorkbook fs l wb = Inr W"
  shows "list_all2 (\<lambda>ws ws'. transformSheet fs l ws = Inr ws') (worksheets wb) (worksheets W)"
proof (cases "eachSheet fs l (worksheets wb)")
  case (Inl err)
  with assms show ?thesis by (simp add: transformWorkbook_def)
next
  case (Inr r)
  with assms have "worksheets W = r" by (auto simp: transformWorkbook_def)
  with Inr show ?thesis by (simp add: eachSheet_Inr_iff)
qed

lemma transformWorkbook_succeeds:
  "\<forall>ws \<in> set (worksheets wb). columns ws \<noteq> None \<Longrightarrow> \<exists>W. transformWorkbook fs l wb = Inr W"
  using eachSheet_succeeds [of "worksheets wb" fs l] by (auto simp: transformWorkbook_def)

lemma transformWorkbook_throws:
  "\<exists>ws \<in> set (worksheets wb). columns ws = None \<Longrightarrow> transformWorkbook fs l wb = Inl typeError"
  using eachSheet_throws [of "worksheets wb" fs l] by (simp add: transformWorkbook_def)

lemma transformed_sheet:
  assumes "transformWorkbook fs l wb = Inr W" and "ws' \<in> set (worksheets W)"
  obtains ws where "ws \<in> set (worksheets wb)" and "transformSheet fs l ws = Inr ws'"
proof -
  have "list_all2 P xs ys \<Longrightarrow> y \<in> set ys \<Longrightarrow> \<exists>x \<in> set xs. P x y" for P xs ys and y :: worksheet
    by (induction rule: list_all2_induct) auto
  from this [OF transformWorkbook_Inr [OF assms(1)] assms(2)] that show ?thesis
    by blast
qed

lemma sheetColumns_transformSheet:
  "transformSheet fs l ws = Inr ws' \<Longrightarrow>
   sheetColumns ws' = map (transformColumn fs) (sheetColumns ws)"
  by (erule transformSheet_Inr) (simp add: sheetColumns_def)

lemma cellValues_transformWorkbook:
  assumes "transformWorkbook fs l wb = Inr W"
  shows "cellValues W = cellValues wb"
proof -
  have "list_all2 (\<lambda>ws ws'. transformSheet fs l ws = Inr ws') wss r \<Longrightarrow>
        map (\<lambda>ws. map (\<lambda>col. map cell_value (cells col)) (sheetColumns ws)) r =
        map (\<lambda>ws. map (\<lambda>col. map cell_value (cells col)) (sheetColumns ws)) wss" for wss r
    by (induction rule: list_all2_induct)
      (simp_all add: sheetColumns_transformSheet values_transformColumn comp_def)
  from this [OF transformWorkbook_Inr [OF assms]] show ?thesis
    by (simp add: cellValues_def)
qed


lemma fonts_transformWorkbook:
  assumes "transformWorkbook fs l wb = Inr W" and "ws' \<in> set (worksheets W)"
    and "col \<in> set (sheetColumns ws')" and "c \<in> set (cells col)"
  shows "\<exists>g. cell_font c = Some g \<and> font_size g = Some fs"
proof -
  from assms(1,2) obtain ws where "transformSheet fs l ws = Inr ws'"
    by (rule transformed_sheet)
  then have "sheetColumns ws' = map (transformColumn fs) (sheetColumns ws)"
    by (rule sheetColumns_transformSheet)
  with assms(3) obtain c0 where "col = transformColumn fs c0"
    by auto
  with assms(4) show ?thesis
    by (simp add: font_transformColumn)
qed

lemma transformWorkbook_idem:
  assumes "transformWorkbook fs l wb = Inr W"
  shows "transformWorkbook fs l W = Inr W"
proof -
  have "list_all2 (\<lambda>ws ws'. transformSheet fs l ws = Inr ws') wss r \<Longrightarrow>
        list_all2 (\<lambda>ws ws'. transformSheet fs l ws = Inr ws') r r" for wss r
    by (induction rule: list_all2_induct) (simp_all add: transformSheet_idem)
  from this [OF transformWorkbook_Inr [OF assms]]
  have "eachSheet fs l (worksheets W) = Inr (worksheets W)"
    by (simp add: eachSheet_Inr_iff)
  then show ?thesis
    by (simp add: transformWorkbook_def)
qed

lemma convert_serializes:
  assumes "\<not> memoryLimitMB cfg < memoryUsageMB ext"
    and "reqFile req = Some f"
    and "isValidXlsx (buffer f)"
    and "xlsxLoad ext (buffer f) = Inr wb"
    and "transformWorkbook (requestFontSize cfg (fontSizeField req)) (requestLandscape req) wb
         = Inr W"
  shows "snd (convert cfg (ext \<lparr> xlsxWriteBuffer := write' \<rparr>) req) =
     (case write' W of
        Inl err \<Rightarrow> handleError err
      | Inr modified \<Rightarrow>
          snd (convert cfg (ext \<lparr> xlsxWriteBuffer := (\<lambda>w. Inr modified) \<rparr>) req))"
  using assms
  by (cases "write' W") (simp_all add: convert_def conversionTask_def renderDispatch_def)

lemma convert_transform_throws:
  assumes "\<not> memoryLimitMB cfg < memoryUsageMB ext"
    and "reqFile req = Some f"
    and "isValidXlsx (buffer f)"
    and "xlsxLoad ext (buffer f) = Inr wb"
    and "\<exists>ws \<in> set (worksheets wb). columns ws = None"
  shows "snd (convert cfg ext req) = jsonError 500 (js ''Internal server error'')"
proof -
  have "conversionTask ext f (requestFontSize cfg (fontSizeField req)) (requestLandscape req)
          (requestSinglePageSheets req) = ([DocumentTransformer], Inl typeError)"
    using assms(4) transformWorkbook_throws [OF assms(5)]
    by (simp add: conversionTask_def)
  from convert_admitted [OF assms(1-3) this] show ?thesis
    by (simp add: handleError_def typeError_def js_def)
qed

lemma requestFontSize_clamp:
  "requestFontSize cfg field = clamp (numberOr (parseInt field) (defaultFontSize cfg)) 6 72"
  by (simp add: requestFontSize_def rawFontSize_def clamp_min_max)

lemmas probe_defs =
  writeIfFontSize_def writeIfWidths_def fontSizes_def columnWidths_def sheetColumns_def
  sampleColumn_def textCell_def transformColumn_def setFontSize_def typeError_def
  successResponse_def

subsection \<open>Column width\<close>



subsection \<open>Idempotence\<close>

text \<open>
  Claim C9. Transforming the document that a transformation returned, again with the same
  font size and orientation, completes and returns the same document: fonts, widths and
  page setup are unchanged. The width of a column depends on the values of its cells
  alone, not on the width, fonts or font size it had before, and the font size of every
  visited cell is the requested one.
\<close>

theorem transform_idempotent:
  "(transformWorkbook fontSize landscapeOpt wb = Inr W \<longrightarrow>
      transformWorkbook fontSize landscapeOpt W = Inr W)
   \<and> (map cell_value (cells col) = map cell_value (cells col') \<longrightarrow>
        width (transformColumn fontSize col) = width (transformColumn fontSize' col'))
   \<and> (\<forall>c \<in> set (cells (transformColumn fontSize col)).
        \<exists>f. cell_font c = Some f \<and> font_size f = Some fontSize)"
proof (intro conjI impI ballI)
  assume "transformWorkbook fontSize landscapeOpt wb = Inr W"
  then show "transformWorkbook fontSize landscapeOpt W = Inr W"
    by (rule transformWorkbook_idem)
next
  assume "map cell_value (cells col) = map cell_value (cells col')"
  then have "snd (eachCell fontSize (cells col) 0) = snd (eachCell fontSize' (cells col') 0)"
    by (rule eachCell_snd_values)
  then show "width (transformColumn fontSize col) = width (transformColumn fontSize' col')"
    by (simp add: width_transformColumn)
next
  fix c
  assume "c \<in> set (cells (transformColumn fontSize col))"
  then show "\<exists>f. cell_font c = Some f \<and> font_size f = Some fontSize"
    by (rule font_transformColumn)
qed


theorem transform_idempotent_witness:
  "(case transformWorkbook 9 (js ''true'') sampleWorkbook of
      Inl err \<Rightarrow> False
    | Inr W \<Rightarrow> transformWorkbook 9 (js ''true'') W = Inr W \<and> columnWidths W = [[Some 12]])
   \<and> map cell_value (cells sampleColumn) =
       map cell_value (cells (transformColumn 30 (sampleColumn \<lparr> width := Some 40 \<rparr>)))
   \<and> width (transformColumn 9 sampleColumn) =
       width (transformColumn 12 (transformColumn 30 (sampleColumn \<lparr> width := Some 40 \<rparr>)))"
proof -
  obtain W where W: "transformWorkbook 9 (js ''true'') sampleWorkbook = Inr W"
    using transformWorkbook_succeeds [of sampleWorkbook 9 "js ''true''"]
    by (auto simp: sampleWorkbook_def)
  have "transformWorkbook 9 (js ''true'') W = Inr W"
    using transform_idempotent [where fontSize = 9 and landscapeOpt = "js ''true''"
        and wb = sampleWorkbook and W = W] W by simp
  moreover have "columnWidths W = [[Some 12]]"
    using W
    by (auto simp: transformWorkbook_def transformSheet_def sampleWorkbook_def columnWidths_def
        sheetColumns_def sampleColumn_def textCell_def transformColumn_def js_def)
  moreover have "width (transformColumn 9 sampleColumn) =
       width (transformColumn 12 (transformColumn 30 (sampleColumn \<lparr> width := Some 40 \<rparr>)))"
    using transform_idempotent [where fontSize = 9 and col = sampleColumn
        and col' = "transformColumn 30 (sampleColumn \<lparr> width := Some 40 \<rparr>)" and fontSize' = 12]
    by (simp add: values_transformColumn)
  ultimately show ?thesis
    using W by (simp add: values_transformColumn)
qed

subsection \<open>Font size\<close>

text \<open>
  Claim C5. The font size of the request is the parsed \<open>fontSize\<close> field clamped to
  \<open>[6, 72]\<close> when the field parses to a non-zero integer, and the configured default
  clamped to \<open>[6, 72]\<close> when the field is absent, does not parse or parses to \<open>0\<close>. The
  document that the handler gives to the serialiser has the content of the loaded
  workbook, and every visited cell of every column of every sheet of it has that font
  size. With no \<open>DEFAULT_FONT_SIZE\<close> in the environment the default is 9: the field \<open>200\<close>
  gives 72, and the field \<open>0\<close>, an absent field and an unparsable field give 9.
\<close>

theorem font_size_clamped:
  "(\<forall>n. parseInt field = Some n \<and> n \<noteq> 0 \<longrightarrow> requestFontSize cfg field = clamp n 6 72)
   \<and> (parseInt field = None \<or> parseInt field = Some 0 \<longrightarrow>
        requestFontSize cfg field = clamp (defaultFontSize cfg) 6 72)
   \<and> (memoryUsageMB ext \<le> memoryLimitMB cfg \<and> reqFile req = Some f \<and> isValidXlsx (buffer f)
        \<and> xlsxLoad ext (buffer f) = Inr wb \<and> (\<forall>ws \<in> set (worksheets wb). columns ws \<noteq> None) \<longrightarrow>
        (\<exists>W. cellValues W = cellValues wb
           \<and> (\<forall>ws \<in> set (worksheets W). \<forall>col \<in> set (sheetColumns ws). \<forall>c \<in> set (cells col).
                \<exists>g. cell_font c = Some g
                   \<and> font_size g =
                       Some (clamp (numberOr (parseInt (fontSizeField req)) (defaultFontSize cfg))
                              6 72))
           \<and> (\<forall>write'. snd (convert cfg (ext \<lparr> xlsxWriteBuffer := write' \<rparr>) req) =
                (case write' W of
                   Inl err \<Rightarrow> handleError err
                 | Inr modified \<Rightarrow>
                     snd (convert cfg (ext \<lparr> xlsxWriteBuffer := (\<lambda>w. Inr modified) \<rparr>) req)))))
   \<and> defaultFontSize defaultConfig = 9
   \<and> requestFontSize defaultConfig (Some (js ''200'')) = 72
   \<and> requestFontSize defaultConfig (Some (js ''0'')) = 9
   \<and> requestFontSize defaultConfig None = 9
   \<and> requestFontSize defaultConfig (Some (js ''large'')) = 9"
proof (intro conjI allI impI)
  fix n
  assume "parseInt field = Some n \<and> n \<noteq> 0"
  then show "requestFontSize cfg field = clamp n 6 72"
    by (simp add: requestFontSize_clamp numberOr_def)
next
  assume "parseInt field = None \<or> parseInt field = Some 0"
  then show "requestFontSize cfg field = clamp (defaultFontSize cfg) 6 72"
    by (auto simp: requestFontSize_clamp numberOr_def)
next
  assume reach: "memoryUsageMB ext \<le> memoryLimitMB cfg \<and> reqFile req = Some f
        \<and> isValidXlsx (buffer f) \<and> xlsxLoad ext (buffer f) = Inr wb
        \<and> (\<forall>ws \<in> set (worksheets wb). columns ws \<noteq> None)"
  let ?size = "clamp (numberOr (parseInt (fontSizeField req)) (defaultFontSize cfg)) 6 72"
  from reach obtain T where
    "transformWorkbook (requestFontSize cfg (fontSizeField req)) (requestLandscape req) wb = Inr T"
    using transformWorkbook_succeeds by blast
  then have T: "transformWorkbook ?size (requestLandscape req) wb = Inr T"
    and T': "transformWorkbook (requestFontSize cfg (fontSizeField req)) (requestLandscape req) wb
               = Inr T"
    by (simp_all add: requestFontSize_clamp)
  have admitted: "\<not> memoryLimitMB cfg < memoryUsageMB ext"
    using reach by simp
  have "cellValues T = cellValues wb"
    using T by (rule cellValues_transformWorkbook)
  moreover have "\<forall>ws \<in> set (worksheets T). \<forall>col \<in> set (sheetColumns ws). \<forall>c \<in> set (cells col).
      \<exists>g. cell_font c = Some g \<and> font_size g = Some ?size"
    using fonts_transformWorkbook [OF T] by blast
  moreover have "\<forall>write'. snd (convert cfg (ext \<lparr> xlsxWriteBuffer := write' \<rparr>) req) =
      (case write' T of
         Inl err \<Rightarrow> handleError err
       | Inr modified \<Rightarrow>
           snd (convert cfg (ext \<lparr> xlsxWriteBuffer := (\<lambda>w. Inr modified) \<rparr>) req))"
    using convert_serializes [OF admitted _ _ _ T'] reach by blast
  ultimately show "\<exists>W. cellValues W = cellValues wb
           \<and> (\<forall>ws \<in> set (worksheets W). \<forall>col \<in> set (sheetColumns ws). \<forall>c \<in> set (cells col).
                \<exists>g. cell_font c = Some g \<and> font_size g = Some ?size)
           \<and> (\<forall>write'. snd (convert cfg (ext \<lparr> xlsxWriteBuffer := write' \<rparr>) req) =
                (case write' W of
                   Inl err \<Rightarrow> handleError err
                 | Inr modified \<Rightarrow>
                     snd (convert cfg (ext \<lparr> xlsxWriteBuffer := (\<lambda>w. Inr modified) \<rparr>) req)))"
    by blast
next
  show "defaultFontSize defaultConfig = 9"
    by (simp add: defaultConfig_def loadConfig_def parse_defs)
next
  show "requestFontSize defaultConfig (Some (js ''200'')) = 72"
    by (simp add: requestFontSize_def rawFontSize_def defaultConfig_def loadConfig_def parse_defs)
next
  show "requestFontSize defaultConfig (Some (js ''0'')) = 9"
    by (simp add: requestFontSize_def rawFontSize_def defaultConfig_def loadConfig_def parse_defs)
next
  show "requestFontSize defaultConfig None = 9"
    by (simp add: requestFontSize_def rawFontSize_def defaultConfig_def loadConfig_def parse_defs)
next
  show "requestFontSize defaultConfig (Some (js ''large'')) = 9"
    by (simp add: requestFontSize_def rawFontSize_def defaultConfig_def loadConfig_def parse_defs)
qed

theorem font_size_clamped_witness:
  "parseInt (Some (js ''200'')) = Some 200
   \<and> requestFontSize defaultConfig (Some (js ''200'')) = 72
   \<and> map columns (worksheets sampleWorkbook) = [Some [sampleColumn]]
   \<and> snd (convert defaultConfig
        (collaboratorsWith 100 (Inr pdfReply) \<lparr> xlsxWriteBuffer := writeIfFontSize 72 \<rparr>)
        (upload (Some zipBytes) (js ''report.xlsx'') \<lparr> fontSizeField := Some (js ''200'') \<rparr>)) =
       successResponse \<lparr> buffer = Some zipBytes, originalname = Some (js ''report.xlsx'') \<rparr> pdfBytes
   \<and> snd (convert defaultConfig
        (collaboratorsWith 100 (Inr pdfReply) \<lparr> xlsxWriteBuffer := writeIfFontSize 200 \<rparr>)
        (upload (Some zipBytes) (js ''report.xlsx'') \<lparr> fontSizeField := Some (js ''200'') \<rparr>)) =
       jsonError 500 (js ''Internal server error'')"
proof -
  have p: "parseInt (Some (js ''200'')) = Some 200"
    by (simp add: parse_defs)
  have fs: "requestFontSize defaultConfig (Some (js ''200'')) = 72"
    using font_size_clamped [where field = "Some (js ''200'')" and cfg = defaultConfig] p
    by (simp add: clamp_def)
  have sheets: "map columns (worksheets sampleWorkbook) = [Some [sampleColumn]]"
    by (simp add: sampleWorkbook_def)
  have ok72: "snd (convert defaultConfig
        (collaboratorsWith 100 (Inr pdfReply) \<lparr> xlsxWriteBuffer := writeIfFontSize 72 \<rparr>)
        (upload (Some zipBytes) (js ''report.xlsx'') \<lparr> fontSizeField := Some (js ''200'') \<rparr>)) =
       successResponse \<lparr> buffer = Some zipBytes, originalname = Some (js ''report.xlsx'') \<rparr> pdfBytes"
    by (simp add: sample_defs parse_defs handler_defs probe_defs)
  have no200: "snd (convert defaultConfig
        (collaboratorsWith 100 (Inr pdfReply) \<lparr> xlsxWriteBuffer := writeIfFontSize 200 \<rparr>)
        (upload (Some zipBytes) (js ''report.xlsx'') \<lparr> fontSizeField := Some (js ''200'') \<rparr>)) =
       jsonError 500 (js ''Internal server error'')"
    by (simp add: sample_defs parse_defs handler_defs probe_defs)
  from p fs sheets ok72 no200 show ?thesis by simp
qed

section \<open>The name of the attachment\<close>

lemma isDotXlsx_length: "isDotXlsx ext \<Longrightarrow> length ext = 5"
  by (erule isDotXlsx.elims) simp_all

lemma sanitizeFilename_safe: "list_all safeChar (sanitizeFilename name)"
  by (auto simp: sanitizeFilename_def list_all_iff safeChar_def)

lemma sanitizeFilename_append:
  "sanitizeFilename (xs @ ys) = sanitizeFilename xs @ sanitizeFilename ys"
  by (simp add: sanitizeFilename_def)

lemma sanitizeFilename_dot_pdf: "sanitizeFilename (js ''.pdf'') = js ''.pdf''"
  by (simp add: sanitizeFilename_def safeChar_def js_def)

lemma replaceXlsxExt_stem:
  assumes "isDotXlsx ext"
  shows "replaceXlsxExt (stem @ ext) = stem @ js ''.pdf''"
  using assms isDotXlsx_length [OF assms] by (simp add: replaceXlsxExt_def)

lemma pdfName_stem:
  assumes "isDotXlsx ext"
  shows "pdfName (Some (stem @ ext)) = sanitizeFilename stem @ js ''.pdf''"
proof -
  have "ext \<noteq> []"
    using isDotXlsx_length [OF assms] by auto
  then have "stringOr (Some (stem @ ext)) (js ''export.xlsx'') = stem @ ext"
    by (simp add: stringOr_def)
  then show ?thesis
    by (simp add: pdfName_def replaceXlsxExt_stem [OF assms] sanitizeFilename_append
        sanitizeFilename_dot_pdf)
qed

lemma matchesSafePdfName_stem:
  "stem \<noteq> [] \<Longrightarrow> matchesSafePdfName (sanitizeFilename stem @ js ''.pdf'')"
proof -
  assume "stem \<noteq> []"
  then have "0 < length (sanitizeFilename stem)"
    by (simp add: sanitizeFilename_def)
  moreover have "length (js ''.pdf'') = 4"
    by (simp add: js_def)
  ultimately show ?thesis
    by (simp add: matchesSafePdfName_def sanitizeFilename_safe)
qed

lemma pdfName_default:
  "orig = None \<or> orig = Some [] \<Longrightarrow> pdfName orig = js ''export.pdf''"
  by (auto simp: pdfName_def stringOr_def replaceXlsxExt_def sanitizeFilename_def safeChar_def
      js_def)


lemma replaceXlsxExt_other:
  assumes "\<not> (\<exists>stem ext. name = stem @ ext \<and> isDotXlsx ext)"
  shows "replaceXlsxExt name = name"
proof -
  have "\<not> isDotXlsx (drop (length name - 5) name)"
    using assms append_take_drop_id [of "length name - 5" name] by metis
  then show ?thesis
    by (simp add: replaceXlsxExt_def)
qed

lemma pdfName_other:
  assumes "name \<noteq> []" and "\<not> (\<exists>stem ext. name = stem @ ext \<and> isDotXlsx ext)"
  shows "pdfName (Some name) = sanitizeFilename name"
  using assms(1) replaceXlsxExt_other [OF assms(2)]
  by (simp add: pdfName_def stringOr_def)

lemmas name_defs =
  pdfName_def stringOr_def js_def replaceXlsxExt_def sanitizeFilename_def safeChar_def
  basename_def

text \<open>
  Claim C7, as amended. The name in \<open>Content-Disposition\<close> consists of characters of
  \<open>[A-Za-z0-9._-]\<close> only: every other code unit of the name is replaced by an underscore,
  one for one. When the name the handler received ends in \<open>.xlsx\<close>, in any letter case,
  that ending is replaced by \<open>.pdf\<close>, and the result matches \<open>^[A-Za-z0-9._-]+\.pdf$\<close> when
  something precedes the ending. A name that does not end in \<open>.xlsx\<close> is sanitised and
  gets no PDF extension. An absent or empty name gives \<open>export.pdf\<close>. For the declared
  name \<open>evil"; rm -rf /.xlsx\<close> the handler receives the base name \<open>.xlsx\<close> and the result
  is \<open>.pdf\<close>: it holds no \<open>rm\<close>, no quote and no semicolon, and nothing precedes the
  extension.
\<close>

theorem attachment_filename:
  "list_all safeChar (pdfName orig)
   \<and> (\<forall>stem ext. orig = Some (stem @ ext) \<and> isDotXlsx ext \<longrightarrow>
        pdfName orig = sanitizeFilename stem @ js ''.pdf'')
   \<and> (\<forall>stem ext. orig = Some (stem @ ext) \<and> isDotXlsx ext \<and> stem \<noteq> [] \<longrightarrow>
        matchesSafePdfName (pdfName orig))
   \<and> (\<forall>name. orig = Some name \<and> name \<noteq> []
          \<and> \<not> (\<exists>stem ext. name = stem @ ext \<and> isDotXlsx ext) \<longrightarrow>
        pdfName orig = sanitizeFilename name)
   \<and> (orig = None \<or> orig = Some [] \<longrightarrow> pdfName orig = js ''export.pdf'')
   \<and> length (sanitizeFilename name) = length name
   \<and> (\<forall>i < length name.
        sanitizeFilename name ! i = (if safeChar (name ! i) then name ! i else 0x5F))
   \<and> map_of (headers (successResponse f pdf)) ''Content-Disposition'' =
       Some (HeaderString (js ''attachment; filename=\"'' @ pdfName (originalname f) @ js ''\"''))
   \<and> basename (js ''evil\"; rm -rf /.xlsx'') = js ''.xlsx''
   \<and> pdfName (Some (basename (js ''evil\"; rm -rf /.xlsx''))) = js ''.pdf''
   \<and> \<not> sublist (js ''rm'') (pdfName (Some (basename (js ''evil\"; rm -rf /.xlsx''))))
   \<and> of_char (CHR 0x22) \<notin> set (pdfName (Some (basename (js ''evil\"; rm -rf /.xlsx''))))
   \<and> of_char (CHR '';'') \<notin> set (pdfName (Some (basename (js ''evil\"; rm -rf /.xlsx''))))"
proof -
  have base: "basename (js ''evil\"; rm -rf /.xlsx'') = js ''.xlsx''"
    by (simp add: basename_def js_def)
  have evil: "pdfName (Some (basename (js ''evil\"; rm -rf /.xlsx''))) = js ''.pdf''"
    unfolding base by (simp add: name_defs)
  have safe: "list_all safeChar (pdfName orig)"
    by (simp add: pdfName_def sanitizeFilename_safe)
  have stem: "\<forall>stem ext. orig = Some (stem @ ext) \<and> isDotXlsx ext \<longrightarrow>
        pdfName orig = sanitizeFilename stem @ js ''.pdf''"
    by (auto simp: pdfName_stem)
  have pattern: "\<forall>stem ext. orig = Some (stem @ ext) \<and> isDotXlsx ext \<and> stem \<noteq> [] \<longrightarrow>
        matchesSafePdfName (pdfName orig)"
    by (auto simp: pdfName_stem matchesSafePdfName_stem)
  have other: "\<forall>name. orig = Some name \<and> name \<noteq> []
          \<and> \<not> (\<exists>stem ext. name = stem @ ext \<and> isDotXlsx ext) \<longrightarrow>
        pdfName orig = sanitizeFilename name"
    using pdfName_other by blast
  have dflt: "orig = None \<or> orig = Some [] \<longrightarrow> pdfName orig = js ''export.pdf''"
    using pdfName_default [of orig] by blast
  have len: "length (sanitizeFilename name) = length name"
    by (simp add: sanitizeFilename_def)
  have nth: "\<forall>i < length name.
        sanitizeFilename name ! i = (if safeChar (name ! i) then name ! i else 0x5F)"
    by (simp add: sanitizeFilename_def)
  have hdr: "map_of (headers (successResponse f pdf)) ''Content-Disposition'' =
       Some (HeaderString (js ''attachment; filename=\"'' @ pdfName (originalname f) @ js ''\"''))"
    by (simp add: successResponse_def)
  have rm: "\<not> sublist (js ''rm'') (pdfName (Some (basename (js ''evil\"; rm -rf /.xlsx''))))"
    unfolding evil by (simp add: js_def sublist_Cons_right)
  have q: "of_char (CHR 0x22) \<notin> set (pdfName (Some (basename (js ''evil\"; rm -rf /.xlsx''))))"
    unfolding evil by (simp add: js_def)
  have sc: "of_char (CHR '';'') \<notin> set (pdfName (Some (basename (js ''evil\"; rm -rf /.xlsx''))))"
    unfolding evil by (simp add: js_def)
  from safe stem pattern other dflt len nth hdr base evil rm q sc show ?thesis
    by (intro conjI)
qed

theorem attachment_filename_witness:
  "isDotXlsx (js ''.XLSX'')
   \<and> basename (js ''uploads/2024/my report (2024).XLSX'') = js ''my report (2024).XLSX''
   \<and> pdfName (Some (js ''my report (2024).XLSX'')) = js ''my_report__2024_.pdf''
   \<and> matchesSafePdfName (pdfName (Some (js ''my report (2024).XLSX'')))
   \<and> pdfName (Some (js ''notes.txt'')) = js ''notes.txt''
   \<and> pdfName None = js ''export.pdf''"
proof -
  have ext: "isDotXlsx (js ''.XLSX'')"
    by (simp add: js_def)
  have base: "basename (js ''uploads/2024/my report (2024).XLSX'') = js ''my report (2024).XLSX''"
    by (simp add: basename_def js_def)
  have split: "js ''my report (2024).XLSX'' = js ''my report (2024)'' @ js ''.XLSX''"
    by (simp add: js_def)
  have stem: "js ''my report (2024)'' \<noteq> []"
    by (simp add: js_def)
  have san: "sanitizeFilename (js ''my report (2024)'') @ js ''.pdf'' = js ''my_report__2024_.pdf''"
    by (simp add: sanitizeFilename_def safeChar_def js_def)
  note inst = attachment_filename [of "Some (js ''my report (2024).XLSX'')" "[]"
      "\<lparr> buffer = None, originalname = None \<rparr>" "[]"]
  have "pdfName (Some (js ''my report (2024).XLSX'')) = js ''my_report__2024_.pdf''"
    using inst ext split san by metis
  moreover have "matchesSafePdfName (pdfName (Some (js ''my report (2024).XLSX'')))"
    using inst ext split stem by metis
  moreover have "pdfName None = js ''export.pdf''"
    using attachment_filename [of None "[]" "\<lparr> buffer = None, originalname = None \<rparr>" "[]"]
    by blast
  moreover have "pdfName (Some (js ''notes.txt'')) = js ''notes.txt''"
    by (simp add: name_defs)
  ultimately show ?thesis
    using ext base by simp
qed

theorem filename_without_pdf_extension_counterexample:
  "basename (js ''notes.txt'') = js ''notes.txt''
   \<and> pdfName (Some (basename (js ''notes.txt''))) = js ''notes.txt''
   \<and> \<not> matchesSafePdfName (pdfName (Some (basename (js ''notes.txt''))))
   \<and> basename (js ''evil\"; rm -rf /.xlsx'') = js ''.xlsx''
   \<and> pdfName (Some (basename (js ''evil\"; rm -rf /.xlsx''))) = js ''.pdf''
   \<and> \<not> matchesSafePdfName (pdfName (Some (basename (js ''evil\"; rm -rf /.xlsx''))))"
proof -
  have b1: "basename (js ''notes.txt'') = js ''notes.txt''"
    by (simp add: basename_def js_def)
  have plain: "pdfName (Some (basename (js ''notes.txt''))) = js ''notes.txt''"
    unfolding b1 by (simp add: name_defs)
  have n1: "\<not> matchesSafePdfName (pdfName (Some (basename (js ''notes.txt''))))"
    unfolding plain by (simp add: matchesSafePdfName_def js_def)
  have b2: "basename (js ''evil\"; rm -rf /.xlsx'') = js ''.xlsx''"
    by (simp add: basename_def js_def)
  have evil: "pdfName (Some (basename (js ''evil\"; rm -rf /.xlsx''))) = js ''.pdf''"
    unfolding b2 by (simp add: name_defs)
  have n2: "\<not> matchesSafePdfName (pdfName (Some (basename (js ''evil\"; rm -rf /.xlsx''))))"
    unfolding evil by (simp add: matchesSafePdfName_def js_def)
  from b1 plain n1 b2 evil n2 show ?thesis by simp
qed

section \<open>The bound on concurrent conversions\<close>

lemma limiterInv_idle: "limiterInv N idle"
  by (simp add: limiterInv_def idle_def)

lemma limiterInv_schedule: "limiterInv N s \<Longrightarrow> limiterInv N (schedule N t s)"
  by (cases "queued s") (auto simp: limiterInv_def schedule_def admit_def)

lemma limiterInv_release: "limiterInv N s \<Longrightarrow> limiterInv N (release N t s)"
proof (cases "t \<in> set (running s)")
  case False
  then show "limiterInv N s \<Longrightarrow> limiterInv N (release N t s)"
    by (simp add: release_def)
next
  case True
  assume inv: "limiterInv N s"
  from True have pos: "0 < length (running s)"
    by (cases "running s") auto
  show "limiterInv N (release N t s)"
  proof (cases "queued s")
    case Nil
    with True inv show ?thesis
      by (simp add: limiterInv_def release_def admit_def length_remove1)
  next
    case (Cons q qs)
    with inv have "length (running s) = N"
      by (simp add: limiterInv_def)
    with True Cons pos show ?thesis
      by (simp add: limiterInv_def release_def admit_def length_remove1)
  qed
qed

lemma limiterInv_step: "limiterInv N s \<Longrightarrow> limiterInv N (limiterStep N s e)"
  by (cases e) (simp_all add: limiterInv_schedule limiterInv_release)

lemma limiterInv_foldl: "limiterInv N s \<Longrightarrow> limiterInv N (foldl (limiterStep N) s es)"
  by (induction es arbitrary: s) (simp_all add: limiterInv_step)

lemma limiterInv_run: "limiterInv N (limiterRun N es)"
  by (simp add: limiterRun_def limiterInv_foldl limiterInv_idle)

lemma queued_starts_on_release:
  assumes inv: "limiterInv N s"
    and waiting: "t \<in> set (queued s)" "t \<notin> set (running s)"
    and started: "t \<in> set (running (limiterStep N s e))"
  shows "\<exists>u \<in> set (running s). e = Completes u \<or> e = Fails u"
proof (cases e)
  case (Schedule u)
  from waiting(1) have "queued s \<noteq> []" by auto
  with inv have full: "length (running s) = N"
    by (simp add: limiterInv_def)
  have "running (schedule N u s) = running s"
    using full by (cases "queued s") (simp_all add: schedule_def admit_def)
  with started waiting(2) Schedule show ?thesis by simp
next
  case (Completes u)
  with started waiting(2) have "u \<in> set (running s)"
    by (cases "u \<in> set (running s)") (simp_all add: release_def)
  with Completes show ?thesis by blast
next
  case (Fails u)
  with started waiting(2) have "u \<in> set (running s)"
    by (cases "u \<in> set (running s)") (simp_all add: release_def)
  with Fails show ?thesis by blast
qed

lemma release_slot:
  assumes inv: "limiterInv N s" and run: "t \<in> set (running s)"
  shows "length (running (release N t s)) =
           (if queued s = [] then length (running s) - 1 else length (running s))"
proof (cases "queued s")
  case Nil
  with run show ?thesis
    by (simp add: release_def admit_def length_remove1)
next
  case (Cons q qs)
  with inv have "length (running s) = N"
    by (simp add: limiterInv_def)
  moreover from run have "0 < length (running s)"
    by (cases "running s") auto
  ultimately show ?thesis
    using run Cons by (simp add: release_def admit_def length_remove1)
qed

lemma drain_running:
  "foldl (limiterStep N) \<lparr> running = xs, queued = [] \<rparr> (map Fails xs) = idle"
proof (induction xs)
  case Nil
  show ?case by (simp add: idle_def)
next
  case (Cons x xs)
  have "release N x \<lparr> running = x # xs, queued = [] \<rparr> = \<lparr> running = xs, queued = [] \<rparr>"
    by (simp add: release_def admit_def)
  with Cons show ?case by simp
qed


lemma limiterRun_snoc: "limiterRun N (es @ [e]) = limiterStep N (limiterRun N es) e"
  by (simp add: limiterRun_def)

lemma limiterRun_append:
  "limiterRun N (es @ es') = foldl (limiterStep N) (limiterRun N es) es'"
  by (simp add: limiterRun_def)

lemma schedule_all:
  "limiterRun N (map Schedule ts) = \<lparr> running = take N ts, queued = drop N ts \<rparr>"
proof (induction ts rule: rev_induct)
  case Nil
  show ?case by (simp add: limiterRun_def idle_def)
next
  case (snoc t ts)
  have "schedule N t \<lparr> running = take N ts, queued = drop N ts \<rparr> =
          \<lparr> running = take N (ts @ [t]), queued = drop N (ts @ [t]) \<rparr>"
  proof (cases "length ts < N")
    case True
    then show ?thesis by (simp add: schedule_def admit_def)
  next
    case False
    then show ?thesis
      by (cases "drop N ts") (simp_all add: schedule_def admit_def)
  qed
  with snoc show ?case
    by (simp add: limiterRun_snoc)
qed

text \<open>
  Claim C4. With capacity \<open>N\<close>, after any sequence of schedulings, completions and
  failures at most \<open>N\<close> tasks are running. Scheduling tasks at once starts the first \<open>N\<close>
  and leaves the others waiting in order. A waiting task starts only at the event by which
  a running task completes or fails. A failure releases the slot exactly as a completion
  does: the task that ends leaves, and its slot goes to the head of the queue or becomes
  free; once nothing waits and every running task has ended, the limiter is idle again.
\<close>

theorem limiter_capacity_bound:
  "length (running (limiterRun N es)) \<le> N
   \<and> limiterRun N (map Schedule ts) = \<lparr> running = take N ts, queued = drop N ts \<rparr>
   \<and> (\<forall>t e. t \<in> set (queued (limiterRun N es)) \<and> t \<notin> set (running (limiterRun N es))
            \<and> t \<in> set (running (limiterRun N (es @ [e]))) \<longrightarrow>
          (\<exists>u \<in> set (running (limiterRun N es)). e = Completes u \<or> e = Fails u))
   \<and> (\<forall>t. limiterRun N (es @ [Fails t]) = limiterRun N (es @ [Completes t]))
   \<and> (\<forall>t \<in> set (running (limiterRun N es)). \<forall>outcome.
          length (running (limiterRun N (es @ [taskEnds t outcome]))) =
            (if queued (limiterRun N es) = [] then length (running (limiterRun N es)) - 1
             else length (running (limiterRun N es))))
   \<and> (queued (limiterRun N es) = [] \<longrightarrow>
        limiterRun N (es @ map Fails (running (limiterRun N es))) = idle)"
proof (intro conjI allI impI ballI)
  show "length (running (limiterRun N es)) \<le> N"
    using limiterInv_run [of N es] by (simp add: limiterInv_def)
next
  show "limiterRun N (map Schedule ts) = \<lparr> running = take N ts, queued = drop N ts \<rparr>"
    by (rule schedule_all)
next
  fix t e
  assume "t \<in> set (queued (limiterRun N es)) \<and> t \<notin> set (running (limiterRun N es))
            \<and> t \<in> set (running (limiterRun N (es @ [e])))"
  then show "\<exists>u \<in> set (running (limiterRun N es)). e = Completes u \<or> e = Fails u"
    using queued_starts_on_release [OF limiterInv_run, of t N es e]
    by (simp add: limiterRun_snoc)
next
  fix t
  show "limiterRun N (es @ [Fails t]) = limiterRun N (es @ [Completes t])"
    by (simp add: limiterRun_snoc)
next
  fix t outcome
  assume "t \<in> set (running (limiterRun N es))"
  then show "length (running (limiterRun N (es @ [taskEnds t outcome]))) =
            (if queued (limiterRun N es) = [] then length (running (limiterRun N es)) - 1
             else length (running (limiterRun N es)))"
    using release_slot [OF limiterInv_run, of t N es]
    by (cases outcome) (simp_all add: limiterRun_snoc taskEnds_def)
next
  assume empty: "queued (limiterRun N es) = []"
  have "limiterRun N es = \<lparr> running = running (limiterRun N es), queued = [] \<rparr>"
    using empty by (cases "limiterRun N es") simp
  then have "foldl (limiterStep N) (limiterRun N es) (map Fails (running (limiterRun N es))) = idle"
    using drain_running [of N "running (limiterRun N es)"] by simp
  then show "limiterRun N (es @ map Fails (running (limiterRun N es))) = idle"
    by (simp add: limiterRun_append)
qed

theorem limiter_capacity_bound_witness:
  "limiterRun 2 [Schedule 1, Schedule 2, Schedule 3] = \<lparr> running = [1, 2], queued = [3] \<rparr>
   \<and> limiterRun 2 [Schedule 1, Schedule 2, Schedule 3, Fails 1] = \<lparr> running = [2, 3], queued = [] \<rparr>
   \<and> limiterRun 2 [Schedule 1, Schedule 2, Schedule 3, Fails 1, Fails 2, Fails 3] = idle"
proof -
  have start: "limiterRun 2 [Schedule 1, Schedule 2, Schedule 3] = \<lparr> running = [1, 2], queued = [3] \<rparr>"
    using limiter_capacity_bound [of 2 "[]" "[1, 2, 3]"] by (simp add: numeral_2_eq_2)
  have step: "limiterRun 2 [Schedule 1, Schedule 2, Schedule 3, Fails 1] = \<lparr> running = [2, 3], queued = [] \<rparr>"
    using start limiterRun_snoc [of 2 "[Schedule 1, Schedule 2, Schedule 3]" "Fails 1"]
    by (simp add: release_def admit_def)
  have "limiterRun 2 ([Schedule 1, Schedule 2, Schedule 3, Fails 1] @ map Fails [2, 3]) = idle"
    using step limiter_capacity_bound [of 2 "[Schedule 1, Schedule 2, Schedule 3, Fails 1]" "[]"]
    by simp
  with start step show ?thesis by simp
qed


end
